theory Spec2Isabelle
  imports Main "HOL-Library.Word" "HOL-Library.Signed_Division"
begin

unbundle bit_operations_syntax

section \<open>C library functions used by the toolchain\<close>

text \<open>
  C strings are modelled as \<open>string\<close> (a \<open>char list\<close> without the terminating NUL).
  The \<open>ctype.h\<close> predicates are those of the "C" locale.
\<close>

definition isspace :: "char \<Rightarrow> bool" where
  "isspace c = (c = CHR '' '' \<or> c = CHR 0x09 \<or> c = CHR 0x0A \<or> c = CHR 0x0B
                \<or> c = CHR 0x0C \<or> c = CHR 0x0D)"

definition tolower :: "char \<Rightarrow> char" where
  "tolower c = (case map_of (zip ''ABCDEFGHIJKLMNOPQRSTUVWXYZ'' ''abcdefghijklmnopqrstuvwxyz'') c of
                  Some l \<Rightarrow> l | None \<Rightarrow> c)"

text \<open>The value of a character as a digit (0..15), for \<open>strtol\<close> in base 10 and 16.\<close>

definition digit_value :: "char \<Rightarrow> nat option" where
  "digit_value c = map_of (zip ''0123456789abcdefABCDEF''
                     [0, 1, 2, 3, 4, 5, 6, 7, 8, 9, 10, 11, 12, 13, 14, 15, 10, 11, 12, 13, 14, 15]) c"

definition digit_in_base :: "nat \<Rightarrow> char \<Rightarrow> nat option" where
  "digit_in_base b c = (case digit_value c of
                          Some d \<Rightarrow> if d < b then Some d else None
                        | None \<Rightarrow> None)"

fun strtol_digits :: "nat \<Rightarrow> nat \<Rightarrow> string \<Rightarrow> nat \<times> string" where
  "strtol_digits b acc [] = (acc, [])"
| "strtol_digits b acc (c # cs) =
     (case digit_in_base b c of
        Some d \<Rightarrow> strtol_digits b (acc * b + d) cs
      | None \<Rightarrow> (acc, c # cs))"

definition has_hex_prefix :: "string \<Rightarrow> bool" where
  "has_hex_prefix s = (case s of
       c0 # c1 # c2 # _ \<Rightarrow> c0 = CHR ''0'' \<and> (c1 = CHR ''x'' \<or> c1 = CHR ''X'')
                            \<and> digit_in_base 16 c2 \<noteq> None
     | _ \<Rightarrow> False)"

text \<open>
  \<open>long\<close> is taken to be 64 bits wide (LP64); \<open>strtol\<close> saturates at \<open>LONG_MIN\<close> and
  \<open>LONG_MAX\<close>.
\<close>

definition clamp_long :: "int \<Rightarrow> int" where
  "clamp_long v = (if v < - (2 ^ 63) then - (2 ^ 63) else if v > 2 ^ 63 - 1 then 2 ^ 63 - 1 else v)"

text \<open>
  \<open>strtol s base\<close> returns the converted value and the unconverted rest of the string
  (the C function's \<open>endp\<close>): leading white space, an optional sign, an optional
  \<open>0x\<close> when the base is 16, then digits. When there is no digit the value is 0 and the
  rest is the whole string.
\<close>

definition strtol :: "string \<Rightarrow> nat \<Rightarrow> int \<times> string" where
  "strtol s b =
     (let s1 = dropWhile isspace s;
          neg = (case s1 of c # _ \<Rightarrow> c = CHR ''-'' | [] \<Rightarrow> False);
          s2 = (case s1 of c # cs \<Rightarrow> if c = CHR ''-'' \<or> c = CHR ''+'' then cs else s1 | [] \<Rightarrow> s1);
          s3 = (if b = 16 \<and> has_hex_prefix s2 then drop 2 s2 else s2);
          (v, rest) = strtol_digits b 0 s3
      in if length rest = length s3 then (0, s)
         else (clamp_long (if neg then - int v else int v), rest))"

text \<open>
  \<open>strtof\<close> (decimal text to an IEEE-754 single) is not modelled; the assembler takes it
  as a parameter that returns the bit pattern of the converted value and the unconverted
  rest.
\<close>

type_synonym strtof_t = "string \<Rightarrow> 32 word \<times> string"

text \<open>\<open>strchr(s, c)\<close> cuts or finds at the first occurrence of a character.\<close>

definition before_char :: "char \<Rightarrow> string \<Rightarrow> string" where
  "before_char c s = takeWhile (\<lambda>x. x \<noteq> c) s"

definition after_char :: "char \<Rightarrow> string \<Rightarrow> string" where
  "after_char c s = drop 1 (dropWhile (\<lambda>x. x \<noteq> c) s)"

fun strstr :: "string \<Rightarrow> string \<Rightarrow> string option" where
  "strstr [] needle = (if needle = [] then Some [] else None)"
| "strstr (c # cs) needle =
     (if take (length needle) (c # cs) = needle then Some (c # cs) else strstr cs needle)"

text \<open>\<open>printf\<close> conversions \<open>%d\<close>, \<open>%u\<close> and \<open>%0nX\<close>.\<close>

definition digit_char :: "nat \<Rightarrow> char" where
  "digit_char d = ''0123456789ABCDEF'' ! d"

function show_dec :: "int \<Rightarrow> string" where
  "show_dec i = (if i < 10 then [digit_char (nat i)]
                 else show_dec (i div 10) @ [digit_char (nat (i mod 10))])"
  by pat_completeness auto

termination show_dec
  by (relation "measure nat") auto

declare show_dec.simps [simp del]

definition show_nat :: "nat \<Rightarrow> string" where
  "show_nat n = show_dec (int n)"

definition show_int :: "int \<Rightarrow> string" where
  "show_int i = (if i < 0 then CHR ''-'' # show_dec (- i) else show_dec i)"

function show_hex :: "int \<Rightarrow> string" where
  "show_hex i = (if i < 16 then [digit_char (nat i)]
                 else show_hex (i div 16) @ [digit_char (nat (i mod 16))])"
  by pat_completeness auto

termination show_hex
  by (relation "measure nat") auto

declare show_hex.simps [simp del]

definition show_hex_pad :: "nat \<Rightarrow> int \<Rightarrow> string" where
  "show_hex_pad w n = (let h = show_hex n in replicate (w - length h) CHR ''0'' @ h)"

section \<open>Instruction set and encoding (milo\_asm.h, milo\_asm.c)\<close>

definition OP_NOP :: "8 word" where "OP_NOP = 0x00"
definition OP_MOV :: "8 word" where "OP_MOV = 0x07"
definition OP_EXIT :: "8 word" where "OP_EXIT = 0xFF"
definition OP_ADD :: "8 word" where "OP_ADD = 0x01"
definition OP_SUB :: "8 word" where "OP_SUB = 0x02"
definition OP_MUL :: "8 word" where "OP_MUL = 0x03"
definition OP_IMAD :: "8 word" where "OP_IMAD = 0x05"
definition OP_NEG :: "8 word" where "OP_NEG = 0x06"
definition OP_IDIV :: "8 word" where "OP_IDIV = 0x36"
definition OP_IREM :: "8 word" where "OP_IREM = 0x37"
definition OP_IABS :: "8 word" where "OP_IABS = 0x38"
definition OP_IMIN :: "8 word" where "OP_IMIN = 0x39"
definition OP_IMAX :: "8 word" where "OP_IMAX = 0x3A"
definition OP_SLT :: "8 word" where "OP_SLT = 0x04"
definition OP_SLE :: "8 word" where "OP_SLE = 0x70"
definition OP_SEQ :: "8 word" where "OP_SEQ = 0x71"
definition OP_AND :: "8 word" where "OP_AND = 0x50"
definition OP_OR :: "8 word" where "OP_OR = 0x51"
definition OP_XOR :: "8 word" where "OP_XOR = 0x52"
definition OP_NOT :: "8 word" where "OP_NOT = 0x53"
definition OP_SHL :: "8 word" where "OP_SHL = 0x60"
definition OP_SHR :: "8 word" where "OP_SHR = 0x61"
definition OP_SHA :: "8 word" where "OP_SHA = 0x62"
definition OP_LDR :: "8 word" where "OP_LDR = 0x10"
definition OP_STR :: "8 word" where "OP_STR = 0x11"
definition OP_LDS :: "8 word" where "OP_LDS = 0x12"
definition OP_STS :: "8 word" where "OP_STS = 0x13"
definition OP_BEQ :: "8 word" where "OP_BEQ = 0x20"
definition OP_BNE :: "8 word" where "OP_BNE = 0x21"
definition OP_BRA :: "8 word" where "OP_BRA = 0x22"
definition OP_SSY :: "8 word" where "OP_SSY = 0x23"
definition OP_JOIN :: "8 word" where "OP_JOIN = 0x24"
definition OP_BAR :: "8 word" where "OP_BAR = 0x25"
definition OP_TID :: "8 word" where "OP_TID = 0x26"
definition OP_CALL :: "8 word" where "OP_CALL = 0x27"
definition OP_RET :: "8 word" where "OP_RET = 0x28"
definition OP_FADD :: "8 word" where "OP_FADD = 0x30"
definition OP_FSUB :: "8 word" where "OP_FSUB = 0x31"
definition OP_FMUL :: "8 word" where "OP_FMUL = 0x32"
definition OP_FDIV :: "8 word" where "OP_FDIV = 0x33"
definition OP_FTOI :: "8 word" where "OP_FTOI = 0x34"
definition OP_FFMA :: "8 word" where "OP_FFMA = 0x35"
definition OP_FMIN :: "8 word" where "OP_FMIN = 0x3B"
definition OP_FMAX :: "8 word" where "OP_FMAX = 0x3C"
definition OP_FABS :: "8 word" where "OP_FABS = 0x3D"
definition OP_ITOF :: "8 word" where "OP_ITOF = 0x3E"
definition OP_FNEG :: "8 word" where "OP_FNEG = 0x54"
definition OP_FSLT :: "8 word" where "OP_FSLT = 0x72"
definition OP_FSLE :: "8 word" where "OP_FSLE = 0x73"
definition OP_FSEQ :: "8 word" where "OP_FSEQ = 0x74"
definition OP_POPC :: "8 word" where "OP_POPC = 0x68"
definition OP_CLZ :: "8 word" where "OP_CLZ = 0x69"
definition OP_BREV :: "8 word" where "OP_BREV = 0x6A"
definition OP_CNOT :: "8 word" where "OP_CNOT = 0x6B"
definition OP_ISETP :: "8 word" where "OP_ISETP = 0x80"
definition OP_FSETP :: "8 word" where "OP_FSETP = 0x81"
definition OP_SELP :: "8 word" where "OP_SELP = 0x82"
definition OP_SFU_SIN :: "8 word" where "OP_SFU_SIN = 0x40"
definition OP_SFU_COS :: "8 word" where "OP_SFU_COS = 0x41"
definition OP_SFU_EX2 :: "8 word" where "OP_SFU_EX2 = 0x42"
definition OP_SFU_LG2 :: "8 word" where "OP_SFU_LG2 = 0x43"
definition OP_SFU_RCP :: "8 word" where "OP_SFU_RCP = 0x44"
definition OP_SFU_RSQ :: "8 word" where "OP_SFU_RSQ = 0x45"
definition OP_SFU_SQRT :: "8 word" where "OP_SFU_SQRT = 0x46"
definition OP_SFU_TANH :: "8 word" where "OP_SFU_TANH = 0x47"
definition OP_TEX :: "8 word" where "OP_TEX = 0x90"
definition OP_TXL :: "8 word" where "OP_TXL = 0x91"
definition OP_TXB :: "8 word" where "OP_TXB = 0x92"

lemmas opcode_defs =
  OP_NOP_def OP_MOV_def OP_EXIT_def OP_ADD_def OP_SUB_def OP_MUL_def OP_IMAD_def OP_NEG_def
  OP_IDIV_def OP_IREM_def OP_IABS_def OP_IMIN_def OP_IMAX_def OP_SLT_def OP_SLE_def OP_SEQ_def
  OP_AND_def OP_OR_def OP_XOR_def OP_NOT_def OP_SHL_def OP_SHR_def OP_SHA_def OP_LDR_def
  OP_STR_def OP_LDS_def OP_STS_def OP_BEQ_def OP_BNE_def OP_BRA_def OP_SSY_def OP_JOIN_def
  OP_BAR_def OP_TID_def OP_CALL_def OP_RET_def OP_FADD_def OP_FSUB_def OP_FMUL_def OP_FDIV_def
  OP_FTOI_def OP_FFMA_def OP_FMIN_def OP_FMAX_def OP_FABS_def OP_ITOF_def OP_FNEG_def
  OP_FSLT_def OP_FSLE_def OP_FSEQ_def OP_POPC_def OP_CLZ_def OP_BREV_def OP_CNOT_def
  OP_ISETP_def OP_FSETP_def OP_SELP_def OP_SFU_SIN_def OP_SFU_COS_def OP_SFU_EX2_def
  OP_SFU_LG2_def OP_SFU_RCP_def OP_SFU_RSQ_def OP_SFU_SQRT_def OP_SFU_TANH_def OP_TEX_def
  OP_TXL_def OP_TXB_def

record milo_inst_t =
  opcode :: "8 word"
  rd :: "8 word"
  rs1 :: "8 word"
  rs2 :: "8 word"
  rs3 :: "8 word"
  pred :: "8 word"
  imm :: "32 word"
  has_imm :: bool
  has_rs3 :: bool

definition milo_encode_inst :: "milo_inst_t \<Rightarrow> 64 word" where
  "milo_encode_inst inst =
    (let word = push_bit 56 (ucast (opcode inst))
             OR push_bit 48 (ucast (rd inst))
             OR push_bit 40 (ucast (rs1 inst))
             OR push_bit 32 (ucast (rs2 inst));
         pg = (if pred inst = 0 then 0x7 else pred inst)
     in if has_rs3 inst
        then word OR push_bit 28 (ucast (pg AND 0x0F))
                  OR push_bit 20 (ucast (rs3 inst))
                  OR ucast (imm inst AND 0xFFFFF)
        else word OR push_bit 28 (ucast (pg AND 0x0F))
                  OR ucast (imm inst AND 0xFFFFF))"

definition milo_decode_inst :: "64 word \<Rightarrow> milo_inst_t" where
  "milo_decode_inst word =
     \<lparr> opcode = ucast (drop_bit 56 word AND 0xFF),
       rd = ucast (drop_bit 48 word AND 0xFF),
       rs1 = ucast (drop_bit 40 word AND 0xFF),
       rs2 = ucast (drop_bit 32 word AND 0xFF),
       rs3 = 0,
       pred = 0,
       imm = ucast (word AND 0xFFFFFFFF),
       has_imm = False,
       has_rs3 = False \<rparr>"

text \<open>The predicate guard field of an instruction word: bits 31..28.\<close>

definition pred_nibble :: "64 word \<Rightarrow> 64 word" where
  "pred_nibble w = drop_bit 28 w AND 0xF"


section \<open>Assembler (milo\_asm.c)\<close>

text \<open>
  One entry of the opcode table: mnemonic, opcode and operand format
  (\<open>r\<close> register, \<open>i\<close> immediate, \<open>l\<close> label). The table's \<open>num_args\<close> column is
  never read by the assembler and is left out.
\<close>

type_synonym opcode_entry_t = "string \<times> 8 word \<times> string"

definition opcode_table :: "opcode_entry_t list" where
  "opcode_table =
   [(''nop'', OP_NOP, ''''), (''exit'', OP_EXIT, ''''), (''mov'', OP_MOV, ''rr''),
    (''add'', OP_ADD, ''rrr''), (''sub'', OP_SUB, ''rrr''), (''mul'', OP_MUL, ''rrr''),
    (''imad'', OP_IMAD, ''rrrr''), (''neg'', OP_NEG, ''rr''), (''idiv'', OP_IDIV, ''rrr''),
    (''irem'', OP_IREM, ''rrr''), (''iabs'', OP_IABS, ''rr''), (''imin'', OP_IMIN, ''rrr''),
    (''imax'', OP_IMAX, ''rrr''),
    (''slt'', OP_SLT, ''rrr''), (''sle'', OP_SLE, ''rrr''), (''seq'', OP_SEQ, ''rrr''),
    (''and'', OP_AND, ''rrr''), (''or'', OP_OR, ''rrr''), (''xor'', OP_XOR, ''rrr''),
    (''not'', OP_NOT, ''rr''),
    (''shl'', OP_SHL, ''rrr''), (''shr'', OP_SHR, ''rrr''), (''sha'', OP_SHA, ''rrr''),
    (''ldr'', OP_LDR, ''rr''), (''str'', OP_STR, ''rr''), (''lds'', OP_LDS, ''rr''),
    (''sts'', OP_STS, ''rr''),
    (''beq'', OP_BEQ, ''rrl''), (''bne'', OP_BNE, ''rrl''), (''bra'', OP_BRA, ''l''),
    (''ssy'', OP_SSY, ''l''), (''join'', OP_JOIN, ''''), (''bar'', OP_BAR, ''i''),
    (''tid'', OP_TID, ''r''), (''call'', OP_CALL, ''l''), (''ret'', OP_RET, ''''),
    (''fadd'', OP_FADD, ''rrr''), (''fsub'', OP_FSUB, ''rrr''), (''fmul'', OP_FMUL, ''rrr''),
    (''fdiv'', OP_FDIV, ''rrr''), (''ffma'', OP_FFMA, ''rrrr''), (''ftoi'', OP_FTOI, ''rr''),
    (''itof'', OP_ITOF, ''rr''), (''fmin'', OP_FMIN, ''rrr''), (''fmax'', OP_FMAX, ''rrr''),
    (''fabs'', OP_FABS, ''rr''), (''fneg'', OP_FNEG, ''rr''),
    (''fslt'', OP_FSLT, ''rrr''), (''fsle'', OP_FSLE, ''rrr''), (''fseq'', OP_FSEQ, ''rrr''),
    (''popc'', OP_POPC, ''rr''), (''clz'', OP_CLZ, ''rr''), (''brev'', OP_BREV, ''rr''),
    (''cnot'', OP_CNOT, ''rr''),
    (''isetp'', OP_ISETP, ''rrr''), (''fsetp'', OP_FSETP, ''rrr''), (''selp'', OP_SELP, ''rrrr''),
    (''sin'', OP_SFU_SIN, ''rr''), (''cos'', OP_SFU_COS, ''rr''), (''ex2'', OP_SFU_EX2, ''rr''),
    (''lg2'', OP_SFU_LG2, ''rr''), (''rcp'', OP_SFU_RCP, ''rr''), (''rsq'', OP_SFU_RSQ, ''rr''),
    (''sqrt'', OP_SFU_SQRT, ''rr''), (''tanh'', OP_SFU_TANH, ''rr''),
    (''tex'', OP_TEX, ''rrr''), (''txl'', OP_TXL, ''rrrr''), (''txb'', OP_TXB, ''rrrr''),
    (''addi'', OP_ADD, ''rri''), (''subi'', OP_SUB, ''rri''), (''muli'', OP_MUL, ''rri''),
    (''andi'', OP_AND, ''rri''), (''ori'', OP_OR, ''rri''), (''xori'', OP_XOR, ''rri''),
    (''shli'', OP_SHL, ''rri''), (''shri'', OP_SHR, ''rri''), (''shai'', OP_SHA, ''rri'')]"

text \<open>\<open>find_opcode\<close>: the first entry whose name equals the mnemonic, ignoring case.\<close>

fun find_opcode_in :: "opcode_entry_t list \<Rightarrow> string \<Rightarrow> opcode_entry_t option" where
  "find_opcode_in [] nm = None"
| "find_opcode_in (e # es) nm =
     (if map tolower (fst e) = map tolower nm then Some e else find_opcode_in es nm)"

definition find_opcode :: "string \<Rightarrow> opcode_entry_t option" where
  "find_opcode nm = find_opcode_in opcode_table nm"

definition parse_register :: "string \<Rightarrow> 8 word option" where
  "parse_register str =
     (case str of
        [] \<Rightarrow> None
      | c # cs \<Rightarrow>
          if c = CHR ''r'' \<or> c = CHR ''R''
          then (let (val, endp) = strtol cs 10
                in if endp = [] \<and> 0 \<le> val \<and> val \<le> 63 then Some (word_of_int val) else None)
          else None)"

definition parse_immediate :: "string \<Rightarrow> 32 word option" where
  "parse_immediate str =
     (let (val, endp) =
            (case str of
               c0 # c1 # _ \<Rightarrow>
                 if c0 = CHR ''0'' \<and> (c1 = CHR ''x'' \<or> c1 = CHR ''X'')
                 then strtol str 16 else strtol str 10
             | _ \<Rightarrow> strtol str 10)
      in if endp = [] then Some (word_of_int val) else None)"

definition parse_float :: "strtof_t \<Rightarrow> string \<Rightarrow> 32 word option" where
  "parse_float strtof str =
     (let (bits, endp) = strtof str
      in case endp of
           [] \<Rightarrow> Some bits
         | c # _ \<Rightarrow> if c = CHR ''f'' \<or> c = CHR ''F'' then Some bits else None)"

text \<open>
  \<open>trim\<close>: skip leading white space, then cut trailing white space (the first
  remaining character is never white space, so the backward scan stops at it at the latest).
\<close>

definition trim :: "string \<Rightarrow> string" where
  "trim str = (let s = dropWhile isspace str
               in if s = [] then s else rev (dropWhile isspace (rev s)))"

record milo_label_t =
  name :: string
  address :: "32 word"

text \<open>An entry of the file-static table of label operands waiting for resolution.\<close>

record unresolved_t =
  u_address :: "32 word"
  u_label :: string
  u_line :: int

text \<open>
  The assembler state. The arrays \<open>code\<close> and \<open>labels\<close> with their counts
  \<open>code_size\<close> and \<open>label_count\<close> are lists (the count is the length). The file-static
  \<open>unresolved[]\<close> / \<open>unresolved_count\<close> is threaded with the state, since every entry
  point reads or writes it; \<open>milo_asm_init\<close> does not touch it.
\<close>

record milo_asm_t =
  code :: "64 word list"
  labels :: "milo_label_t list"
  error :: string
  error_line :: int
  unresolved :: "unresolved_t list"

definition MILO_MAX_LABELS :: nat where "MILO_MAX_LABELS = 256"
definition MILO_MAX_CODE_SIZE :: nat where "MILO_MAX_CODE_SIZE = 4096"
definition MILO_MAX_LINE_LEN :: nat where "MILO_MAX_LINE_LEN = 256"

definition milo_asm_init :: "unresolved_t list \<Rightarrow> milo_asm_t" where
  "milo_asm_init unres =
     \<lparr> code = [], labels = [], error = [], error_line = 0, unresolved = unres \<rparr>"

text \<open>\<open>snprintf(as->error, 256, ...); as->error_line = line_num; return false\<close>.\<close>

definition asm_fail :: "milo_asm_t \<Rightarrow> string \<Rightarrow> int \<Rightarrow> bool \<times> milo_asm_t" where
  "asm_fail as msg line_num = (False, as\<lparr>error := take 255 msg, error_line := line_num\<rparr>)"

text \<open>
  Splitting the operand text at commas (each comma is overwritten by NUL); at most four
  operands are recorded.
\<close>

fun split_commas :: "string \<Rightarrow> string list" where
  "split_commas [] = [[]]"
| "split_commas (c # cs) =
     (if c = CHR '','' then [] # split_commas cs
      else (case split_commas cs of
              [] \<Rightarrow> [[c]]
            | x # xs \<Rightarrow> (c # x) # xs))"

definition parse_operands :: "string \<Rightarrow> string list" where
  "parse_operands p = (if p = [] then [] else map trim (take 4 (split_commas p)))"

text \<open>
  The loop over the format string: operand \<open>j\<close> is read as the format's character
  \<open>j\<close> says; it stops at the end of the format or of the operands.
\<close>

fun asm_operands ::
  "strtof_t \<Rightarrow> string \<Rightarrow> string list \<Rightarrow> nat \<Rightarrow> int \<Rightarrow> milo_inst_t \<Rightarrow> milo_asm_t
   \<Rightarrow> bool \<times> milo_inst_t \<times> milo_asm_t" where
  "asm_operands strtof [] args j line_num inst as = (True, inst, as)"
| "asm_operands strtof (f # fmt) [] j line_num inst as = (True, inst, as)"
| "asm_operands strtof (f # fmt) (arg # args) j line_num inst as =
     (if f = CHR ''r'' then
        (case parse_register arg of
           None \<Rightarrow> (False, inst, snd (asm_fail as (''Invalid register: '' @ arg) line_num))
         | Some reg \<Rightarrow>
             asm_operands strtof fmt args (j + 1) line_num
               (if j = 0 then inst\<lparr>rd := reg\<rparr>
                else if j = 1 then inst\<lparr>rs1 := reg\<rparr>
                else if j = 2 then inst\<lparr>rs2 := reg\<rparr>
                else inst\<lparr>rs3 := reg, has_rs3 := True\<rparr>) as)
      else if f = CHR ''i'' then
        (if CHR ''.'' \<in> set arg then
           (case parse_float strtof arg of
              None \<Rightarrow> (False, inst, snd (asm_fail as (''Invalid float: '' @ arg) line_num))
            | Some v \<Rightarrow>
                asm_operands strtof fmt args (j + 1) line_num (inst\<lparr>imm := v, has_imm := True\<rparr>) as)
         else
           (case parse_immediate arg of
              None \<Rightarrow> (False, inst, snd (asm_fail as (''Invalid immediate: '' @ arg) line_num))
            | Some v \<Rightarrow>
                asm_operands strtof fmt args (j + 1) line_num (inst\<lparr>imm := v, has_imm := True\<rparr>) as))
      else if f = CHR ''l'' then
        (if length (unresolved as) \<ge> MILO_MAX_LABELS
         then (False, inst, snd (asm_fail as ''Too many unresolved labels'' line_num))
         else asm_operands strtof fmt args (j + 1) line_num (inst\<lparr>imm := 0, has_imm := True\<rparr>)
                (as\<lparr>unresolved := unresolved as @
                     [\<lparr>u_address = of_nat (length (code as)), u_label = take 63 arg,
                       u_line = line_num\<rparr>]\<rparr>))
      else asm_operands strtof fmt args (j + 1) line_num inst as)"

text \<open>
  The second half of \<open>milo_asm_line\<close>, from "Parse mnemonic" on: \<open>p\<close> is the trimmed
  text after the comment and the label were removed.
\<close>

definition asm_instruction :: "strtof_t \<Rightarrow> milo_asm_t \<Rightarrow> string \<Rightarrow> int \<Rightarrow> bool \<times> milo_asm_t" where
  "asm_instruction strtof as p line_num =
     (let raw = take 31 (takeWhile (\<lambda>c. \<not> isspace c) p);
          mnemonic = map tolower raw;
          p1 = drop (length raw) p
      in case find_opcode mnemonic of
           None \<Rightarrow> asm_fail as (''Unknown instruction: '' @ mnemonic) line_num
         | Some (nm, opc, fmt) \<Rightarrow>
             (let p2 = dropWhile isspace p1;
                  operands = parse_operands p2;
                  inst0 = \<lparr> opcode = opc, rd = 0, rs1 = 0, rs2 = 0, rs3 = 0, pred = 0, imm = 0,
                            has_imm = False, has_rs3 = False \<rparr>;
                  (ok, inst, as1) = asm_operands strtof fmt operands 0 line_num inst0 as
              in if \<not> ok then (False, as1)
                 else if length (code as1) \<ge> MILO_MAX_CODE_SIZE
                 then asm_fail as1 ''Code too large'' line_num
                 else (True, as1\<lparr>code := code as1 @ [milo_encode_inst inst]\<rparr>)))"

definition milo_asm_line :: "strtof_t \<Rightarrow> milo_asm_t \<Rightarrow> string \<Rightarrow> int \<Rightarrow> bool \<times> milo_asm_t" where
  "milo_asm_line strtof as line line_num =
     (let buf = take (MILO_MAX_LINE_LEN - 1) line;
          buf1 = before_char CHR '';'' buf;
          buf2 = before_char CHR ''#'' buf1;
          p = trim buf2
      in if p = [] then (True, as)
         else if CHR '':'' \<in> set p then
           (let label = trim (before_char CHR '':'' p)
            in if length (labels as) \<ge> MILO_MAX_LABELS
               then asm_fail as ''Too many labels'' line_num
               else (let as1 = as\<lparr>labels := labels as @
                                  [\<lparr>name = take 63 label, address = of_nat (length (code as))\<rparr>]\<rparr>;
                         p1 = trim (after_char CHR '':'' p)
                     in if p1 = [] then (True, as1)
                        else asm_instruction strtof as1 p1 line_num))
         else asm_instruction strtof as p line_num)"

text \<open>The inner loop of \<open>milo_asm_resolve\<close>: the first label with the name.\<close>

fun find_label :: "milo_label_t list \<Rightarrow> string \<Rightarrow> 32 word option" where
  "find_label [] nm = None"
| "find_label (l # ls) nm = (if nm = name l then Some (address l) else find_label ls nm)"

text \<open>
  Patching one instruction: the high 32 bits are kept and the label's address becomes the
  low 32 bits. Every entry made by \<open>milo_asm_line\<close> indexes an instruction of \<open>code\<close>;
  an index at or beyond \<open>code_size\<close> would touch storage that is not part of the program
  and leaves the list as it is.
\<close>

definition patch_label :: "64 word list \<Rightarrow> 32 word \<Rightarrow> 32 word \<Rightarrow> 64 word list" where
  "patch_label cs at addr =
     (if unat at < length cs
      then cs[unat at := ((cs ! unat at) AND 0xFFFFFFFF00000000) OR ucast addr]
      else cs)"

fun resolve_loop :: "unresolved_t list \<Rightarrow> milo_asm_t \<Rightarrow> bool \<times> milo_asm_t" where
  "resolve_loop [] as = (True, as\<lparr>unresolved := []\<rparr>)"
| "resolve_loop (u # us) as =
     (case find_label (labels as) (u_label u) of
        Some addr \<Rightarrow> resolve_loop us (as\<lparr>code := patch_label (code as) (u_address u) addr\<rparr>)
      | None \<Rightarrow> asm_fail as (''Undefined label: '' @ u_label u) (u_line u))"

definition milo_asm_resolve :: "milo_asm_t \<Rightarrow> bool \<times> milo_asm_t" where
  "milo_asm_resolve as = resolve_loop (unresolved as) as"

text \<open>
  \<open>milo_asm_source\<close> cuts the text into lines of at most 255 characters (a longer line
  continues as the next one) and assembles each; it stops at the first failure.
\<close>

fun extract_line :: "string \<Rightarrow> nat \<Rightarrow> string \<times> string" where
  "extract_line [] i = ([], [])"
| "extract_line (c # cs) i =
     (if c \<noteq> CHR 0x0A \<and> i < MILO_MAX_LINE_LEN - 1
      then (let (l, rest) = extract_line cs (i + 1) in (c # l, rest))
      else ([], c # cs))"

definition skip_newline :: "string \<Rightarrow> string" where
  "skip_newline p = (case p of [] \<Rightarrow> [] | c # cs \<Rightarrow> if c = CHR 0x0A then cs else c # cs)"

lemma extract_line_length:
  "extract_line p i = (l, r) \<Longrightarrow> length l + length r = length p"
  by (induction p i arbitrary: l r rule: extract_line.induct)
     (auto split: if_splits prod.splits)

lemma skip_newline_length: "length (skip_newline r) \<le> length r"
  by (cases r) (auto simp: skip_newline_def)

lemma extract_line_progress:
  assumes "p \<noteq> []" and "extract_line p 0 = (l, r)"
  shows "length (skip_newline r) < length p"
proof (cases p)
  case Nil
  with assms show ?thesis by simp
next
  case (Cons c cs)
  show ?thesis
  proof (cases "c = CHR 0x0A")
    case True
    with Cons assms have "r = c # cs" by simp
    with True Cons show ?thesis by (simp add: skip_newline_def)
  next
    case False
    with Cons assms have "l \<noteq> []"
      by (auto simp: MILO_MAX_LINE_LEN_def split: prod.splits)
    moreover have "length l + length r = length p"
      using assms(2) by (rule extract_line_length)
    ultimately have "length r < length p" by (cases l) auto
    with skip_newline_length [of r] show ?thesis by linarith
  qed
qed

function asm_source_loop :: "strtof_t \<Rightarrow> milo_asm_t \<Rightarrow> string \<Rightarrow> int \<Rightarrow> bool \<times> milo_asm_t" where
  "asm_source_loop strtof as p line_num =
     (if p = [] then (True, as)
      else (let lr = extract_line p 0;
                p1 = skip_newline (snd lr);
                res = milo_asm_line strtof as (fst lr) line_num
            in if \<not> fst res then (False, snd res)
               else asm_source_loop strtof (snd res) p1 (line_num + 1)))"
  by pat_completeness auto
termination
proof (relation "measure (\<lambda>(strtof, as, p, line_num). length p)")
  show "wf (measure (\<lambda>(strtof, as, p, line_num). length p))" by simp
next
  fix strtof :: strtof_t and as :: milo_asm_t and p :: string and line_num :: int
    and lr p1 res
  assume "p \<noteq> []" and "lr = extract_line p 0" and "p1 = skip_newline (snd lr)"
  then have "length p1 < length p"
    using extract_line_progress [of p "fst lr" "snd lr"] by simp
  then show "((strtof, snd res, p1, line_num + 1), (strtof, as, p, line_num))
              \<in> measure (\<lambda>(strtof, as, p, line_num). length p)"
    by simp
qed

declare asm_source_loop.simps [simp del]

text \<open>
  \<open>milo_asm_source\<close>: reset the unresolved table, assemble the lines (numbered from 1),
  then resolve the labels.
\<close>

definition milo_asm_source :: "strtof_t \<Rightarrow> milo_asm_t \<Rightarrow> string \<Rightarrow> bool \<times> milo_asm_t" where
  "milo_asm_source strtof as source =
     (let res = asm_source_loop strtof (as\<lparr>unresolved := []\<rparr>) source 1
      in if \<not> fst res then (False, snd res) else milo_asm_resolve (snd res))"

definition milo_asm_get_error :: "milo_asm_t \<Rightarrow> string option" where
  "milo_asm_get_error as =
     (if error as \<noteq> [] then Some (take 511 (''Line '' @ show_int (error_line as) @ '': '' @ error as))
      else None)"

section \<open>Virtual machine (milo\_vm.h, milo\_vm.c)\<close>

definition VM_MAX_REGS :: nat where "VM_MAX_REGS = 64"
definition VM_MAX_CODE :: nat where "VM_MAX_CODE = 4096"
definition VM_MAX_UNIFORMS :: nat where "VM_MAX_UNIFORMS = 32"
definition VM_MAX_TEXTURES :: nat where "VM_MAX_TEXTURES = 8"
definition VM_STACK_SIZE :: nat where "VM_STACK_SIZE = 256"
definition VM_MEM_SIZE :: nat where "VM_MEM_SIZE = 8192"

subsection \<open>Floating point\<close>

text \<open>
  A register is a 32-bit cell; its \<open>.f\<close> view is the IEEE-754 single with that bit
  pattern. Floating-point arithmetic, the conversions and the \<open>libm\<close> functions are not
  modelled: the machine takes them as a parameter, a record of operations on bit
  patterns. \<open>f2i\<close> (the cast \<open>(int32_t)f\<close>) has no result where the C cast is undefined.
\<close>

record fpu =
  fadd :: "32 word \<Rightarrow> 32 word \<Rightarrow> 32 word"
  fsub :: "32 word \<Rightarrow> 32 word \<Rightarrow> 32 word"
  fmul :: "32 word \<Rightarrow> 32 word \<Rightarrow> 32 word"
  fdiv :: "32 word \<Rightarrow> 32 word \<Rightarrow> 32 word"
  fnegate :: "32 word \<Rightarrow> 32 word"
  fabsf :: "32 word \<Rightarrow> 32 word"
  fminf :: "32 word \<Rightarrow> 32 word \<Rightarrow> 32 word"
  fmaxf :: "32 word \<Rightarrow> 32 word \<Rightarrow> 32 word"
  flt :: "32 word \<Rightarrow> 32 word \<Rightarrow> bool"
  fle :: "32 word \<Rightarrow> 32 word \<Rightarrow> bool"
  feq :: "32 word \<Rightarrow> 32 word \<Rightarrow> bool"
  f2i :: "32 word \<Rightarrow> 32 word option"
  i2f :: "32 word \<Rightarrow> 32 word"
  floorf :: "32 word \<Rightarrow> 32 word"
  sinf :: "32 word \<Rightarrow> 32 word"
  cosf :: "32 word \<Rightarrow> 32 word"
  exp2f :: "32 word \<Rightarrow> 32 word"
  log2f :: "32 word \<Rightarrow> 32 word"
  sqrtf :: "32 word \<Rightarrow> 32 word"
  tanhf :: "32 word \<Rightarrow> 32 word"

text \<open>Bit patterns of the float constants the source uses.\<close>

definition F_ZERO :: "32 word" where "F_ZERO = 0x00000000"
definition F_HALF :: "32 word" where "F_HALF = 0x3F000000"
definition F_ONE :: "32 word" where "F_ONE = 0x3F800000"
definition F_255 :: "32 word" where "F_255 = 0x437F0000"
definition F_INFINITY :: "32 word" where "F_INFINITY = 0x7F800000"
definition F_NEG_INFINITY :: "32 word" where "F_NEG_INFINITY = 0xFF800000"

text \<open>\<open>x == 0.0f\<close>: true of exactly the two zeros, \<open>+0\<close> and \<open>-0\<close>.\<close>

definition f_is_zero :: "32 word \<Rightarrow> bool" where
  "f_is_zero x = (x = 0x00000000 \<or> x = 0x80000000)"

definition sfu_sin :: "fpu \<Rightarrow> 32 word \<Rightarrow> 32 word" where
  "sfu_sin F x = sinf F x"

definition sfu_cos :: "fpu \<Rightarrow> 32 word \<Rightarrow> 32 word" where
  "sfu_cos F x = cosf F x"

definition sfu_exp2 :: "fpu \<Rightarrow> 32 word \<Rightarrow> 32 word" where
  "sfu_exp2 F x = exp2f F x"

definition sfu_log2 :: "fpu \<Rightarrow> 32 word \<Rightarrow> 32 word" where
  "sfu_log2 F x = (if fle F x F_ZERO then F_NEG_INFINITY else log2f F x)"

definition sfu_rcp :: "fpu \<Rightarrow> 32 word \<Rightarrow> 32 word" where
  "sfu_rcp F x = (if f_is_zero x then F_INFINITY else fdiv F F_ONE x)"

definition sfu_rsqrt :: "fpu \<Rightarrow> 32 word \<Rightarrow> 32 word" where
  "sfu_rsqrt F x = (if fle F x F_ZERO then F_INFINITY else fdiv F F_ONE (sqrtf F x))"

definition sfu_sqrt :: "fpu \<Rightarrow> 32 word \<Rightarrow> 32 word" where
  "sfu_sqrt F x = (if flt F x F_ZERO then F_ZERO else sqrtf F x)"

definition sfu_tanh :: "fpu \<Rightarrow> 32 word \<Rightarrow> 32 word" where
  "sfu_tanh F x = tanhf F x"

subsection \<open>Instruction fields\<close>

definition inst_opcode :: "64 word \<Rightarrow> 8 word" where
  "inst_opcode inst = ucast (drop_bit 56 inst AND 0xFF)"

definition inst_rd :: "64 word \<Rightarrow> 8 word" where
  "inst_rd inst = ucast (drop_bit 48 inst AND 0xFF)"

definition inst_rs1 :: "64 word \<Rightarrow> 8 word" where
  "inst_rs1 inst = ucast (drop_bit 40 inst AND 0xFF)"

definition inst_rs2 :: "64 word \<Rightarrow> 8 word" where
  "inst_rs2 inst = ucast (drop_bit 32 inst AND 0xFF)"

text \<open>The 20-bit immediate, sign-extended to 32 bits.\<close>

definition inst_imm :: "64 word \<Rightarrow> 32 word" where
  "inst_imm inst =
     (let imm20 = ucast (inst AND 0xFFFFF) :: 32 word
      in if imm20 AND 0x80000 = 0 then imm20 else imm20 OR 0xFFF00000)"

definition inst_rs3 :: "64 word \<Rightarrow> 8 word" where
  "inst_rs3 inst = ucast (drop_bit 20 inst AND 0xFF)"

subsection \<open>Textures\<close>

text \<open>
  \<open>pixels = None\<close> is the NULL pointer; otherwise the list is the allocated array, and
  an index outside it is an out-of-bounds read (no result).
\<close>

record milo_texture_t =
  pixels :: "32 word list option"
  width :: int
  height :: int
  wrap_s :: bool
  wrap_t :: bool
  filter_on :: bool

definition pixel_at :: "32 word list \<Rightarrow> int \<Rightarrow> 32 word option" where
  "pixel_at px i = (if 0 \<le> i \<and> i < int (length px) then Some (px ! nat i) else None)"

text \<open>One channel of the bilinear blend: \<open>shift\<close> is 0, 8, 16 or 24.\<close>

definition blend_channel ::
  "fpu \<Rightarrow> nat \<Rightarrow> 32 word \<Rightarrow> 32 word \<Rightarrow> 32 word \<Rightarrow> 32 word \<Rightarrow> 32 word \<Rightarrow> 32 word
   \<Rightarrow> 32 word option" where
  "blend_channel F shift p00 p10 p01 p11 dx dy =
     (let c00 = i2f F (drop_bit shift p00 AND 0xFF);
          c10 = i2f F (drop_bit shift p10 AND 0xFF);
          c01 = i2f F (drop_bit shift p01 AND 0xFF);
          c11 = i2f F (drop_bit shift p11 AND 0xFF);
          c0 = fadd F c00 (fmul F dx (fsub F c10 c00));
          c1 = fadd F c01 (fmul F dx (fsub F c11 c01));
          cf = fadd F c0 (fmul F dy (fsub F c1 c0))
      in case f2i F (fadd F cf F_HALF) of
           None \<Rightarrow> None
         | Some ci \<Rightarrow>
             (let ci1 = (if ci <s 0 then 0 else ci);
                  ci2 = (if 255 <s ci1 then 255 else ci1)
              in Some (push_bit shift ci2)))"

definition milo_texture_sample ::
  "fpu \<Rightarrow> milo_texture_t option \<Rightarrow> 32 word \<Rightarrow> 32 word \<Rightarrow> 32 word option" where
  "milo_texture_sample F tex u v =
     (case tex of
        None \<Rightarrow> Some 0xFFFF00FF
      | Some t \<Rightarrow>
         (case pixels t of
            None \<Rightarrow> Some 0xFFFF00FF
          | Some px \<Rightarrow>
             (let u1 = (if wrap_s t then fsub F u (floorf F u)
                        else fmaxf F F_ZERO (fminf F F_ONE u));
                  v1 = (if wrap_t t then fsub F v (floorf F v)
                        else fmaxf F F_ZERO (fminf F F_ONE v));
                  fx = fmul F u1 (i2f F (word_of_int (width t - 1)));
                  fy = fmul F v1 (i2f F (word_of_int (height t - 1)))
              in if filter_on t then
                   (case (f2i F (floorf F fx), f2i F (floorf F fy)) of
                      (Some xw, Some yw) \<Rightarrow>
                        (let x0 = sint xw; y0 = sint yw;
                             x1 = (if x0 + 1 \<ge> width t then width t - 1 else x0 + 1);
                             y1 = (if y0 + 1 \<ge> height t then height t - 1 else y0 + 1);
                             dx = fsub F fx (i2f F xw);
                             dy = fsub F fy (i2f F yw)
                         in case (pixel_at px (y0 * width t + x0), pixel_at px (y0 * width t + x1),
                                  pixel_at px (y1 * width t + x0), pixel_at px (y1 * width t + x1)) of
                              (Some p00, Some p10, Some p01, Some p11) \<Rightarrow>
                                (case (blend_channel F 0 p00 p10 p01 p11 dx dy,
                                       blend_channel F 8 p00 p10 p01 p11 dx dy,
                                       blend_channel F 16 p00 p10 p01 p11 dx dy,
                                       blend_channel F 24 p00 p10 p01 p11 dx dy) of
                                   (Some r0, Some r1, Some r2, Some r3) \<Rightarrow> Some (r0 OR r1 OR r2 OR r3)
                                 | _ \<Rightarrow> None)
                            | _ \<Rightarrow> None)
                    | _ \<Rightarrow> None)
                 else
                   (case (f2i F (fadd F fx F_HALF), f2i F (fadd F fy F_HALF)) of
                      (Some xw, Some yw) \<Rightarrow>
                        (let x = (if sint xw \<ge> width t then width t - 1 else sint xw);
                             y = (if sint yw \<ge> height t then height t - 1 else sint yw)
                         in pixel_at px (y * width t + x))
                    | _ \<Rightarrow> None))))"

subsection \<open>Machine state\<close>

text \<open>
  The fixed arrays \<open>regs\<close>, \<open>div_stack\<close>, \<open>ret_stack\<close>, \<open>uniforms\<close>, \<open>textures\<close> and
  \<open>mem\<close> are functions of the index; every access checks the index against the array's
  size as the C code does, or is undefined where the C code does not check.
  \<open>code\<close> with \<open>code_size\<close> is the list \<open>vm_code\<close> (\<open>code_size\<close> is its length). A
  uniform slot is the words of the 64-byte union cell. \<open>vm_error\<close> is the \<open>error\<close>
  string.
\<close>

record milo_vm_t =
  regs :: "nat \<Rightarrow> 32 word"
  vm_code :: "64 word list"
  pc :: "32 word"
  div_stack :: "nat \<Rightarrow> 32 word"
  div_sp :: int
  ret_stack :: "nat \<Rightarrow> 32 word"
  ret_sp :: int
  uniforms :: "nat \<Rightarrow> nat \<Rightarrow> 32 word"
  uniform_count :: int
  textures :: "nat \<Rightarrow> milo_texture_t option"
  mem :: "nat \<Rightarrow> 32 word"
  running :: bool
  discarded :: bool
  cycle_count :: int
  max_cycles :: int
  vm_error :: string

definition milo_vm_init :: milo_vm_t where
  "milo_vm_init =
     \<lparr> regs = (\<lambda>_. 0), vm_code = [], pc = 0, div_stack = (\<lambda>_. 0), div_sp = 0,
       ret_stack = (\<lambda>_. 0), ret_sp = 0, uniforms = (\<lambda>_ _. 0), uniform_count = 0,
       textures = (\<lambda>_. None), mem = (\<lambda>_. 0), running = False, discarded = False,
       cycle_count = 0, max_cycles = 100000, vm_error = [] \<rparr>"

definition milo_vm_load_binary :: "milo_vm_t \<Rightarrow> 64 word list \<Rightarrow> bool \<times> milo_vm_t" where
  "milo_vm_load_binary vm cs =
     (if length cs > VM_MAX_CODE
      then (False, vm\<lparr>vm_error := take 255 (''Code too large ('' @ show_nat (length cs) @ '' > ''
                                     @ show_nat VM_MAX_CODE @ '')'')\<rparr>)
      else (True, vm\<lparr>vm_code := cs\<rparr>))"

definition milo_vm_bind_texture :: "milo_vm_t \<Rightarrow> int \<Rightarrow> milo_texture_t option \<Rightarrow> milo_vm_t" where
  "milo_vm_bind_texture vm unit tex =
     (if 0 \<le> unit \<and> unit < int VM_MAX_TEXTURES
      then vm\<lparr>textures := (textures vm)(nat unit := tex)\<rparr> else vm)"

definition milo_vm_get_error :: "milo_vm_t \<Rightarrow> string option" where
  "milo_vm_get_error vm = (if vm_error vm \<noteq> [] then Some (vm_error vm) else None)"

subsection \<open>Loading assembly text\<close>

text \<open>The hexadecimal scan of the \<open>.data\<close> loader: digits accumulate in a \<open>uint32_t\<close>.\<close>

fun scan_hex_digits :: "32 word \<Rightarrow> string \<Rightarrow> 32 word \<times> string" where
  "scan_hex_digits acc [] = (acc, [])"
| "scan_hex_digits acc (c # cs) =
     (case digit_in_base 16 c of
        Some d \<Rightarrow> scan_hex_digits (acc * 16 + of_nat d) cs
      | None \<Rightarrow> (acc, c # cs))"

definition scan_hex :: "string \<Rightarrow> 32 word \<times> string" where
  "scan_hex p =
     (case p of
        c0 # c1 # cs \<Rightarrow>
          if c0 = CHR ''0'' \<and> (c1 = CHR ''x'' \<or> c1 = CHR ''X'') then scan_hex_digits 0 cs
          else (0, p)
      | _ \<Rightarrow> (0, p))"

definition is_blank :: "char \<Rightarrow> bool" where
  "is_blank c = (c = CHR '' '' \<or> c = CHR 0x09)"

definition is_blank_or_comma :: "char \<Rightarrow> bool" where
  "is_blank_or_comma c = (c = CHR '','' \<or> c = CHR '' '' \<or> c = CHR 0x09)"

lemma scan_hex_digits_length: "length (snd (scan_hex_digits acc p)) \<le> length p"
  by (induction acc p rule: scan_hex_digits.induct) (auto split: option.splits)

lemma scan_hex_length: "length (snd (scan_hex p)) \<le> length p"
proof (cases p)
  case Nil
  then show ?thesis by (simp add: scan_hex_def)
next
  case (Cons c0 p')
  show ?thesis
  proof (cases p')
    case Nil
    with Cons show ?thesis by (simp add: scan_hex_def)
  next
    case (Cons c1 cs)
    with \<open>p = c0 # p'\<close> scan_hex_digits_length [of 0 cs] show ?thesis
      by (auto simp: scan_hex_def)
  qed
qed

lemma strstr_length: "strstr p needle = Some q \<Longrightarrow> length q \<le> length p"
  by (induction p) (auto split: if_splits)

lemma dropWhile_length: "length (dropWhile P xs) \<le> length xs"
  by (induction xs) auto

text \<open>
  The scan for \<open>.data\<close> directives: every occurrence of the text \<open>.data \<close>, wherever it
  stands, is followed by an address and a value in \<open>0x\<close> notation (0 where there is
  none); the value is stored when the address is below \<open>VM_MEM_SIZE\<close>.
\<close>

function load_data :: "string \<Rightarrow> (nat \<Rightarrow> 32 word) \<Rightarrow> (nat \<Rightarrow> 32 word)" where
  "load_data p m =
     (case strstr p ''.data '' of
        None \<Rightarrow> m
      | Some q \<Rightarrow>
          (let p1 = dropWhile is_blank (drop 6 q);
               a = scan_hex p1;
               p2 = dropWhile is_blank_or_comma (snd a);
               v = scan_hex p2
           in load_data (snd v)
                (if unat (fst a) < VM_MEM_SIZE then m(unat (fst a) div 4 := fst v) else m)))"
  by pat_completeness auto
termination
proof (relation "measure (\<lambda>(p, m). length p)")
  show "wf (measure (\<lambda>(p, m). length p))" by simp
next
  fix p :: string and m :: "nat \<Rightarrow> 32 word" and q p1 a p2 v
  assume q: "strstr p ''.data '' = Some q"
    and p1: "p1 = dropWhile is_blank (drop 6 q)" and a: "a = scan_hex p1"
    and p2: "p2 = dropWhile is_blank_or_comma (snd a)" and v: "v = scan_hex p2"
  have "q \<noteq> []" using q by (induction p) (auto split: if_splits)
  then have "length (drop 6 q) < length q" by (cases q) auto
  moreover have "length p1 \<le> length (drop 6 q)" unfolding p1 by (rule dropWhile_length)
  moreover have "length (snd a) \<le> length p1" unfolding a by (rule scan_hex_length)
  moreover have "length p2 \<le> length (snd a)" unfolding p2 by (rule dropWhile_length)
  moreover have "length (snd v) \<le> length p2" unfolding v by (rule scan_hex_length)
  moreover have "length q \<le> length p" using q by (rule strstr_length)
  ultimately have "length (snd v) < length p" by linarith
  then show "((snd v, if unat (fst a) < VM_MEM_SIZE then m(unat (fst a) div 4 := fst v) else m),
              (p, m)) \<in> measure (\<lambda>(p, m). length p)"
    by simp
qed

declare load_data.simps [simp del]

text \<open>
  \<open>milo_vm_load_asm\<close> assembles with a fresh assembler (\<open>milo_asm_source\<close> resets the
  static table of unresolved labels, whose earlier content \<open>unres\<close> is therefore
  irrelevant), loads the words and then the \<open>.data\<close> directives.
\<close>

definition milo_vm_load_asm ::
  "strtof_t \<Rightarrow> unresolved_t list \<Rightarrow> milo_vm_t \<Rightarrow> string \<Rightarrow> bool \<times> milo_vm_t" where
  "milo_vm_load_asm strtof unres vm asm_text =
     (let res = milo_asm_source strtof (milo_asm_init unres) asm_text
      in if \<not> fst res
         then (False, vm\<lparr>vm_error := take 255 (''Assembly error: '' @
                 (case milo_asm_get_error (snd res) of Some e \<Rightarrow> e | None \<Rightarrow> ''(null)''))\<rparr>)
         else (let lb = milo_vm_load_binary vm (code (snd res))
               in if \<not> fst lb then (False, snd lb)
                  else (True, (snd lb)\<lparr>mem := load_data asm_text (mem (snd lb))\<rparr>)))"

subsection \<open>Executing one instruction\<close>

text \<open>
  The outcome of \<open>vm_step\<close>: it returned \<open>true\<close>, it returned \<open>false\<close> (halted, or
  stopped with an error message), or the C code's behaviour is undefined (a register or
  stack index outside its array, \<open>INT_MIN / -1\<close>, a float-to-int cast out of range, a
  texel outside the texture).
\<close>

datatype step_result = Step_True milo_vm_t | Step_False milo_vm_t | Step_UB

definition zero_r0 :: "milo_vm_t \<Rightarrow> milo_vm_t" where
  "zero_r0 vm = vm\<lparr>regs := (regs vm)(0 := 0)\<rparr>"

text \<open>\<open>break\<close> out of the switch: \<open>regs[0].u = 0; return true\<close>.\<close>

definition step_done :: "milo_vm_t \<Rightarrow> step_result" where
  "step_done vm = Step_True (zero_r0 vm)"

text \<open>\<open>vm->regs[r] = v; break\<close>, for a register index taken from an 8-bit field.\<close>

definition write_reg :: "milo_vm_t \<Rightarrow> nat \<Rightarrow> 32 word \<Rightarrow> step_result" where
  "write_reg vm r v =
     (if r < VM_MAX_REGS then step_done (vm\<lparr>regs := (regs vm)(r := v)\<rparr>) else Step_UB)"

definition bool_word :: "bool \<Rightarrow> 32 word" where
  "bool_word b = (if b then 1 else 0)"

text \<open>
  Signed arithmetic wraps around (two's complement); division and remainder truncate
  towards zero, and \<open>INT_MIN / -1\<close> has no result.
\<close>

definition int_div :: "32 word \<Rightarrow> 32 word \<Rightarrow> 32 word option" where
  "int_div a b =
     (if a = 0x80000000 \<and> b = 0xFFFFFFFF then None
      else Some (word_of_int (sint a sdiv sint b)))"

definition int_rem :: "32 word \<Rightarrow> 32 word \<Rightarrow> 32 word option" where
  "int_rem a b =
     (if a = 0x80000000 \<and> b = 0xFFFFFFFF then None
      else Some (word_of_int (sint a smod sint b)))"

text \<open>\<open>while (v) { count += (v & 1); v >>= 1; }\<close>\<close>

function popc_loop :: "32 word \<Rightarrow> 32 word \<Rightarrow> 32 word" where
  "popc_loop v count = (if v = 0 then count else popc_loop (drop_bit 1 v) (count + (v AND 1)))"
  by pat_completeness auto
termination
proof (relation "measure (\<lambda>(v, count). unat v)")
  show "wf (measure (\<lambda>(v, count). unat v))" by simp
next
  fix v count :: "32 word"
  assume "v \<noteq> 0"
  then have "0 < unat v" by (simp add: unat_gt_0)
  then have "unat v div 2 < unat v" by simp
  then have "unat (drop_bit 1 v) < unat v" by (simp add: drop_bit_eq_div unat_div)
  then show "((drop_bit 1 v, count + (v AND 1)), (v, count)) \<in> measure (\<lambda>(v, count). unat v)"
    by simp
qed

declare popc_loop.simps [simp del]

text \<open>\<open>for (i = 31; i >= 0; i--) { if (v & (1u << i)) break; count++; }\<close>: \<open>n\<close> is \<open>i + 1\<close>.\<close>

fun clz_loop :: "32 word \<Rightarrow> nat \<Rightarrow> 32 word \<Rightarrow> 32 word" where
  "clz_loop v 0 count = count"
| "clz_loop v (Suc i) count = (if bit v i then count else clz_loop v i (count + 1))"

text \<open>\<open>for (i = 0; i < 32; i++) r |= ((v >> i) & 1) << (31 - i);\<close>\<close>

definition brev :: "32 word \<Rightarrow> 32 word" where
  "brev v = fold (\<lambda>i r. r OR push_bit (31 - i) (drop_bit i v AND 1)) [0 ..< 32] 0"

text \<open>Pushing on and popping from the divergence and return stacks.\<close>

definition push_div :: "milo_vm_t \<Rightarrow> 32 word \<Rightarrow> step_result" where
  "push_div vm a =
     (if div_sp vm < int VM_STACK_SIZE
      then (if div_sp vm < 0 then Step_UB
            else step_done (vm\<lparr>div_stack := (div_stack vm)(nat (div_sp vm) := a),
                                div_sp := div_sp vm + 1\<rparr>))
      else step_done vm)"

definition do_call :: "milo_vm_t \<Rightarrow> 32 word \<Rightarrow> step_result" where
  "do_call vm a =
     (if ret_sp vm < int VM_STACK_SIZE
      then (if ret_sp vm < 0 then Step_UB
            else step_done (vm\<lparr>ret_stack := (ret_stack vm)(nat (ret_sp vm) := pc vm),
                                ret_sp := ret_sp vm + 1, pc := a\<rparr>))
      else step_done (vm\<lparr>pc := a\<rparr>))"

definition do_ret :: "milo_vm_t \<Rightarrow> step_result" where
  "do_ret vm =
     (if ret_sp vm > 0
      then (if ret_sp vm > int VM_STACK_SIZE then Step_UB
            else step_done (vm\<lparr>pc := ret_stack vm (nat (ret_sp vm - 1)),
                                ret_sp := ret_sp vm - 1\<rparr>))
      else Step_False (vm\<lparr>running := False\<rparr>))"

text \<open>
  \<open>OP_TEX\<close>: the unit is \<open>rs1\<close>'s value, the coordinates are in \<open>rs2\<close> and the
  register after it, and four consecutive registers from \<open>rd\<close> receive the colour.
\<close>

definition unpack_channel :: "fpu \<Rightarrow> 32 word \<Rightarrow> nat \<Rightarrow> 32 word" where
  "unpack_channel F rgba shift = fdiv F (i2f F (drop_bit shift rgba AND 0xFF)) F_255"

definition write_reg4 ::
  "milo_vm_t \<Rightarrow> nat \<Rightarrow> 32 word \<Rightarrow> 32 word \<Rightarrow> 32 word \<Rightarrow> 32 word \<Rightarrow> step_result" where
  "write_reg4 vm r a b c d =
     (if r + 3 < VM_MAX_REGS
      then step_done (vm\<lparr>regs := (regs vm)(r := a, r + 1 := b, r + 2 := c, r + 3 := d)\<rparr>)
      else Step_UB)"

definition do_tex :: "fpu \<Rightarrow> milo_vm_t \<Rightarrow> nat \<Rightarrow> nat \<Rightarrow> 32 word \<Rightarrow> 32 word \<Rightarrow> step_result" where
  "do_tex F vm r s2 u1 u2 =
     (if s2 + 1 < VM_MAX_REGS then
        (let unit = sint u1; v = regs vm (s2 + 1)
         in if 0 \<le> unit \<and> unit < int VM_MAX_TEXTURES \<and> textures vm (nat unit) \<noteq> None
            then (case milo_texture_sample F (textures vm (nat unit)) u2 v of
                    None \<Rightarrow> Step_UB
                  | Some rgba \<Rightarrow>
                      write_reg4 vm r (unpack_channel F rgba 0) (unpack_channel F rgba 8)
                        (unpack_channel F rgba 16) (unpack_channel F rgba 24))
            else write_reg4 vm r F_ONE F_ZERO F_ONE F_ONE)
      else Step_UB)"

text \<open>
  The \<open>switch (op)\<close> of \<open>vm_step\<close>. \<open>vm\<close> is the state after register 0 was cleared and
  \<open>pc\<close> and \<open>cycle_count\<close> were incremented; \<open>u1\<close> and \<open>u2\<close> are the values of the source
  registers read before that (\<open>.u\<close>, \<open>.i\<close> and \<open>.f\<close> are views of the same 32 bits).
\<close>

definition vm_switch ::
  "fpu \<Rightarrow> 8 word \<Rightarrow> nat \<Rightarrow> nat \<Rightarrow> nat \<Rightarrow> 32 word \<Rightarrow> 32 word \<Rightarrow> 32 word \<Rightarrow> milo_vm_t
   \<Rightarrow> step_result" where
  "vm_switch F op r s2 s3 im u1 u2 vm =
    (if op = OP_NOP then step_done vm
     else if op = OP_EXIT then Step_False (vm\<lparr>running := False\<rparr>)
     else if op = OP_MOV then write_reg vm r u1
     else if op = OP_ADD then (if im \<noteq> 0 then write_reg vm r (u1 + im) else write_reg vm r (u1 + u2))
     else if op = OP_SUB then write_reg vm r (u1 - u2)
     else if op = OP_MUL then write_reg vm r (u1 * u2)
     else if op = OP_NEG then write_reg vm r (- u1)
     else if op = OP_IDIV then
       (if u2 = 0 then write_reg vm r 0
        else (case int_div u1 u2 of None \<Rightarrow> Step_UB | Some q \<Rightarrow> write_reg vm r q))
     else if op = OP_IREM then
       (if u2 = 0 then write_reg vm r 0
        else (case int_rem u1 u2 of None \<Rightarrow> Step_UB | Some q \<Rightarrow> write_reg vm r q))
     else if op = OP_IABS then write_reg vm r (if u1 <s 0 then - u1 else u1)
     else if op = OP_IMIN then write_reg vm r (if u1 <s u2 then u1 else u2)
     else if op = OP_IMAX then write_reg vm r (if u2 <s u1 then u1 else u2)
     else if op = OP_IMAD then
       (if s3 < VM_MAX_REGS then write_reg vm r (u1 * u2 + regs vm s3) else Step_UB)
     else if op = OP_SLT then write_reg vm r (bool_word (u1 <s u2))
     else if op = OP_SLE then write_reg vm r (bool_word (u1 \<le>s u2))
     else if op = OP_SEQ then write_reg vm r (bool_word (u1 = u2))
     else if op = OP_AND then write_reg vm r (u1 AND u2)
     else if op = OP_OR then write_reg vm r (u1 OR u2)
     else if op = OP_XOR then write_reg vm r (u1 XOR u2)
     else if op = OP_NOT then write_reg vm r (NOT u1)
     else if op = OP_SHL then write_reg vm r (push_bit (unat (u2 AND 31)) u1)
     else if op = OP_SHR then write_reg vm r (drop_bit (unat (u2 AND 31)) u1)
     else if op = OP_SHA then write_reg vm r (signed_drop_bit (unat (u2 AND 31)) u1)
     else if op = OP_FADD then write_reg vm r (fadd F u1 u2)
     else if op = OP_FSUB then write_reg vm r (fsub F u1 u2)
     else if op = OP_FMUL then write_reg vm r (fmul F u1 u2)
     else if op = OP_FDIV then write_reg vm r (if f_is_zero u2 then F_ZERO else fdiv F u1 u2)
     else if op = OP_FFMA then
       (if s3 < VM_MAX_REGS then write_reg vm r (fadd F (fmul F u1 u2) (regs vm s3)) else Step_UB)
     else if op = OP_FNEG then write_reg vm r (fnegate F u1)
     else if op = OP_FABS then write_reg vm r (fabsf F u1)
     else if op = OP_FMIN then write_reg vm r (fminf F u1 u2)
     else if op = OP_FMAX then write_reg vm r (fmaxf F u1 u2)
     else if op = OP_FTOI then
       (case f2i F u1 of None \<Rightarrow> Step_UB | Some i \<Rightarrow> write_reg vm r i)
     else if op = OP_ITOF then write_reg vm r (i2f F u1)
     else if op = OP_FSLT then write_reg vm r (bool_word (flt F u1 u2))
     else if op = OP_FSLE then write_reg vm r (bool_word (fle F u1 u2))
     else if op = OP_FSEQ then write_reg vm r (bool_word (feq F u1 u2))
     else if op = OP_SFU_SIN then write_reg vm r (sfu_sin F u1)
     else if op = OP_SFU_COS then write_reg vm r (sfu_cos F u1)
     else if op = OP_SFU_EX2 then write_reg vm r (sfu_exp2 F u1)
     else if op = OP_SFU_LG2 then write_reg vm r (sfu_log2 F u1)
     else if op = OP_SFU_RCP then write_reg vm r (sfu_rcp F u1)
     else if op = OP_SFU_RSQ then write_reg vm r (sfu_rsqrt F u1)
     else if op = OP_SFU_SQRT then write_reg vm r (sfu_sqrt F u1)
     else if op = OP_SFU_TANH then write_reg vm r (sfu_tanh F u1)
     else if op = OP_POPC then write_reg vm r (popc_loop u1 0)
     else if op = OP_CLZ then write_reg vm r (clz_loop u1 32 0)
     else if op = OP_BREV then write_reg vm r (brev u1)
     else if op = OP_CNOT then write_reg vm r (bool_word (u1 = 0))
     else if op = OP_SELP then
       (if s3 < VM_MAX_REGS then write_reg vm r (if regs vm s3 \<noteq> 0 then u1 else u2) else Step_UB)
     else if op = OP_BRA then step_done (vm\<lparr>pc := im\<rparr>)
     else if op = OP_BEQ then (if u1 = u2 then step_done (vm\<lparr>pc := im\<rparr>) else step_done vm)
     else if op = OP_BNE then (if u1 \<noteq> u2 then step_done (vm\<lparr>pc := im\<rparr>) else step_done vm)
     else if op = OP_SSY then push_div vm im
     else if op = OP_JOIN then
       (if div_sp vm > 0 then step_done (vm\<lparr>div_sp := div_sp vm - 1\<rparr>) else step_done vm)
     else if op = OP_CALL then do_call vm im
     else if op = OP_RET then do_ret vm
     else if op = OP_TID then write_reg vm r 0
     else if op = OP_BAR then step_done vm
     else if op = OP_TEX then do_tex F vm r s2 u1 u2
     else if op = OP_LDR then
       (let addr = u1 + im
        in if unat addr < VM_MEM_SIZE then write_reg vm r (mem vm (unat addr div 4))
           else write_reg vm r 0)
     else if op = OP_STR then
       (let addr = u1 + im
        in if unat addr < VM_MEM_SIZE then step_done (vm\<lparr>mem := (mem vm)(unat addr div 4 := u2)\<rparr>)
           else step_done vm)
     else if op = OP_LDS \<or> op = OP_STS then step_done vm
     else Step_False (vm\<lparr>vm_error := take 255 (''Unknown opcode: 0x'' @ show_hex_pad 2 (uint op)
                                      @ '' at PC '' @ show_nat (unat (pc vm - 1)))\<rparr>))"

text \<open>
  \<open>vm_step\<close>: the bounds check of the program counter, the decoding, the reads of the
  source registers \<open>rs1\<close> and \<open>rs2\<close> (done for every instruction), then the switch.
\<close>

definition vm_step :: "fpu \<Rightarrow> milo_vm_t \<Rightarrow> step_result" where
  "vm_step F vm =
     (if unat (pc vm) \<ge> length (vm_code vm)
      then Step_False (vm\<lparr>vm_error := take 255 (''PC out of bounds: '' @ show_nat (unat (pc vm)))\<rparr>)
      else
        (let inst = vm_code vm ! unat (pc vm);
             op = inst_opcode inst;
             r = unat (inst_rd inst);
             s1 = unat (inst_rs1 inst);
             s2 = unat (inst_rs2 inst);
             im = inst_imm inst;
             s3 = unat (inst_rs3 inst);
             vm0 = zero_r0 vm
         in if s1 < VM_MAX_REGS \<and> s2 < VM_MAX_REGS
            then vm_switch F op r s2 s3 im (regs vm0 s1) (regs vm0 s2)
                   (vm0\<lparr>pc := pc vm0 + 1, cycle_count := cycle_count vm0 + 1\<rparr>)
            else Step_UB))"

subsection \<open>What a step leaves unchanged\<close>

text \<open>
  \<open>result_all P res\<close>: the state a step returned, if it returned one, satisfies \<open>P\<close>.
\<close>

definition result_all :: "(milo_vm_t \<Rightarrow> bool) \<Rightarrow> step_result \<Rightarrow> bool" where
  "result_all P res = (case res of Step_True v \<Rightarrow> P v | Step_False v \<Rightarrow> P v | Step_UB \<Rightarrow> True)"

lemma result_all_simps [simp]:
  "result_all P (Step_True v) = P v"
  "result_all P (Step_False v) = P v"
  "result_all P Step_UB = True"
  by (simp_all add: result_all_def)

lemma result_all_if:
  "result_all P a \<Longrightarrow> result_all P b \<Longrightarrow> result_all P (if c then a else b)"
  by simp

lemma result_all_option:
  "result_all P a \<Longrightarrow> (\<And>x. result_all P (f x)) \<Longrightarrow>
   result_all P (case opt of None \<Rightarrow> a | Some x \<Rightarrow> f x)"
  by (simp split: option.splits)

text \<open>The fields no instruction writes.\<close>

definition keeps_static :: "milo_vm_t \<Rightarrow> milo_vm_t \<Rightarrow> bool" where
  "keeps_static vm v =
     (cycle_count v = cycle_count vm \<and> max_cycles v = max_cycles vm \<and> vm_code v = vm_code vm
      \<and> uniforms v = uniforms vm \<and> uniform_count v = uniform_count vm
      \<and> textures v = textures vm \<and> discarded v = discarded vm)"

lemma step_done_static: "result_all (keeps_static vm) (step_done vm1) = keeps_static vm vm1"
  by (simp add: step_done_def zero_r0_def keeps_static_def)

lemma write_reg_static: "keeps_static vm vm1 \<Longrightarrow> result_all (keeps_static vm) (write_reg vm1 r v)"
  by (simp add: write_reg_def step_done_def zero_r0_def keeps_static_def)

lemma helpers_static:
  "result_all (keeps_static vm) (push_div vm a)"
  "result_all (keeps_static vm) (do_call vm a)"
  "result_all (keeps_static vm) (do_ret vm)"
  "result_all (keeps_static vm) (do_tex F vm r s2 u1 u2)"
  by (simp_all add: push_div_def do_call_def do_ret_def do_tex_def Let_def step_done_def zero_r0_def
      keeps_static_def write_reg4_def split: option.splits)

lemma keeps_static_refl: "keeps_static vm vm"
  by (simp add: keeps_static_def)

lemma keeps_static_upd:
  "keeps_static vm (vm\<lparr>running := b\<rparr>)"
  "keeps_static vm (vm\<lparr>pc := p\<rparr>)"
  "keeps_static vm (vm\<lparr>div_sp := d\<rparr>)"
  "keeps_static vm (vm\<lparr>mem := m\<rparr>)"
  "keeps_static vm (vm\<lparr>vm_error := e\<rparr>)"
  by (simp_all add: keeps_static_def)

lemma vm_switch_static:
  "result_all (keeps_static vm) (vm_switch F op r s2 s3 im u1 u2 vm)"
  unfolding vm_switch_def Let_def
  by (intro result_all_if result_all_option write_reg_static helpers_static)
     (simp_all add: step_done_static keeps_static_refl keeps_static_upd)

lemma vm_step_true_static:
  assumes "vm_step F vm = Step_True vm'"
  shows "keeps_static (vm\<lparr>cycle_count := cycle_count vm + 1\<rparr>) vm'"
proof -
  let ?vm1 = "(zero_r0 vm)\<lparr>pc := pc (zero_r0 vm) + 1, cycle_count := cycle_count (zero_r0 vm) + 1\<rparr>"
  from assms obtain op r s2 s3 im u1 u2
    where sw: "vm_switch F op r s2 s3 im u1 u2 ?vm1 = Step_True vm'"
    by (auto simp: vm_step_def Let_def split: if_splits)
  have "result_all (keeps_static ?vm1) (vm_switch F op r s2 s3 im u1 u2 ?vm1)"
    by (rule vm_switch_static)
  with sw have "keeps_static ?vm1 vm'" by simp
  then show ?thesis by (simp add: keeps_static_def zero_r0_def)
qed

subsection \<open>Running a fragment\<close>

text \<open>
  The loop \<open>while (vm->running && vm->cycle_count < vm->max_cycles) if (!vm_step(vm)) break;\<close>.
  It has no result when a step is undefined. It terminates because every step that
  returns \<open>true\<close> increments \<open>cycle_count\<close> and leaves \<open>max_cycles\<close> alone.
\<close>

function vm_run :: "fpu \<Rightarrow> milo_vm_t \<Rightarrow> milo_vm_t option" where
  "vm_run F vm =
     (if running vm \<and> cycle_count vm < max_cycles vm
      then (case vm_step F vm of
              Step_True vm' \<Rightarrow> vm_run F vm'
            | Step_False vm' \<Rightarrow> Some vm'
            | Step_UB \<Rightarrow> None)
      else Some vm)"
  by pat_completeness auto
termination
proof (relation "measure (\<lambda>(F, vm). nat (max_cycles vm - cycle_count vm))")
  show "wf (measure (\<lambda>(F, vm). nat (max_cycles vm - cycle_count vm)))" by simp
next
  fix F :: fpu and vm vm' :: milo_vm_t
  assume run: "running vm \<and> cycle_count vm < max_cycles vm" and st: "vm_step F vm = Step_True vm'"
  from vm_step_true_static [OF st]
  have "cycle_count vm' = cycle_count vm + 1" and "max_cycles vm' = max_cycles vm"
    by (simp_all add: keeps_static_def)
  with run show "((F, vm'), (F, vm)) \<in> measure (\<lambda>(F, vm). nat (max_cycles vm - cycle_count vm))"
    by simp
qed

declare vm_run.simps [simp del]

text \<open>
  Fragment inputs and outputs; every \<open>float\<close> field is its bit pattern. The field names
  of the C structs are prefixed (\<open>frag_\<close>, \<open>out_\<close>).
\<close>

record milo_fragment_in_t =
  frag_x :: "32 word"
  frag_y :: "32 word"
  frag_z :: "32 word"
  frag_u :: "32 word"
  frag_v :: "32 word"
  frag_r :: "32 word"
  frag_g :: "32 word"
  frag_b :: "32 word"
  frag_a :: "32 word"
  frag_nx :: "32 word"
  frag_ny :: "32 word"
  frag_nz :: "32 word"

record milo_fragment_out_t =
  out_r :: "32 word"
  out_g :: "32 word"
  out_b :: "32 word"
  out_a :: "32 word"
  out_depth :: "32 word"
  out_discard :: bool

text \<open>The first part of \<open>milo_vm_exec_fragment\<close>: "Reset state" and "Set up input registers".\<close>

definition frag_reset :: "milo_vm_t \<Rightarrow> milo_fragment_in_t \<Rightarrow> milo_vm_t" where
  "frag_reset vm inp =
     vm\<lparr> regs := (\<lambda>_. 0)(2 := frag_u inp, 3 := frag_v inp,
                           4 := frag_nx inp, 5 := frag_ny inp, 6 := frag_nz inp,
                           7 := frag_r inp, 8 := frag_g inp, 9 := frag_b inp, 10 := frag_a inp),
         pc := 0, div_sp := 0, ret_sp := 0, running := True, discarded := False,
         cycle_count := 0, vm_error := [] \<rparr>"

text \<open>
  \<open>milo_vm_exec_fragment\<close> returns the success flag, the output (not written when the
  cycle limit was reached) and the machine state; it has no result when a step is
  undefined.
\<close>

definition milo_vm_exec_fragment ::
  "fpu \<Rightarrow> milo_vm_t \<Rightarrow> milo_fragment_in_t
   \<Rightarrow> (bool \<times> milo_fragment_out_t option \<times> milo_vm_t) option" where
  "milo_vm_exec_fragment F vm inp =
     (case vm_run F (frag_reset vm inp) of
        None \<Rightarrow> None
      | Some vm1 \<Rightarrow>
          if cycle_count vm1 \<ge> max_cycles vm1
          then Some (False, None,
                     vm1\<lparr>vm_error := take 255 (''Exceeded max cycles ('' @ show_int (max_cycles vm1)
                                              @ '')'')\<rparr>)
          else Some (vm_error vm1 = [],
                     Some \<lparr> out_r = regs vm1 4, out_g = regs vm1 5, out_b = regs vm1 6,
                            out_a = regs vm1 7, out_depth = frag_z inp,
                            out_discard = discarded vm1 \<rparr>,
                     vm1))"

text \<open>
  A sequence of at most \<open>n\<close> steps from a state, stopping at the first step that does not
  return \<open>true\<close>.
\<close>

fun vm_steps :: "fpu \<Rightarrow> nat \<Rightarrow> milo_vm_t \<Rightarrow> step_result" where
  "vm_steps F 0 vm = Step_True vm"
| "vm_steps F (Suc n) vm =
     (case vm_step F vm of
        Step_True vm' \<Rightarrow> vm_steps F n vm'
      | Step_False vm' \<Rightarrow> Step_False vm'
      | Step_UB \<Rightarrow> Step_UB)"

text \<open>
  The states at which \<open>vm_run\<close> takes a step, in order, and the test whether the step
  about to be taken from a state is an \<open>OP_STR\<close> whose address is inside the memory.
\<close>

function vm_trace :: "fpu \<Rightarrow> milo_vm_t \<Rightarrow> milo_vm_t list" where
  "vm_trace F vm =
     (if running vm \<and> cycle_count vm < max_cycles vm
      then vm # (case vm_step F vm of
                   Step_True vm' \<Rightarrow> vm_trace F vm'
                 | Step_False vm' \<Rightarrow> []
                 | Step_UB \<Rightarrow> [])
      else [])"
  by pat_completeness auto
termination
proof (relation "measure (\<lambda>(F, vm). nat (max_cycles vm - cycle_count vm))")
  show "wf (measure (\<lambda>(F, vm). nat (max_cycles vm - cycle_count vm)))" by simp
next
  fix F :: fpu and vm vm' :: milo_vm_t
  assume run: "running vm \<and> cycle_count vm < max_cycles vm" and st: "vm_step F vm = Step_True vm'"
  from vm_step_true_static [OF st]
  have "cycle_count vm' = cycle_count vm + 1" and "max_cycles vm' = max_cycles vm"
    by (simp_all add: keeps_static_def)
  with run show "((F, vm'), (F, vm)) \<in> measure (\<lambda>(F, vm). nat (max_cycles vm - cycle_count vm))"
    by simp
qed

declare vm_trace.simps [simp del]

definition str_in_range :: "milo_vm_t \<Rightarrow> bool" where
  "str_in_range vm =
     (unat (pc vm) < length (vm_code vm)
      \<and> inst_opcode (vm_code vm ! unat (pc vm)) = OP_STR
      \<and> unat (regs (zero_r0 vm) (unat (inst_rs1 (vm_code vm ! unat (pc vm))))
              + inst_imm (vm_code vm ! unat (pc vm))) < VM_MEM_SIZE)"

section \<open>Auxiliary notions for the assembler\<close>



section \<open>Example states\<close>

text \<open>A machine holding a one-instruction program, with given registers and memory.\<close>

definition vm_one_inst :: "64 word \<Rightarrow> (nat \<Rightarrow> 32 word) \<Rightarrow> (nat \<Rightarrow> 32 word) \<Rightarrow> milo_vm_t" where
  "vm_one_inst w rg m = milo_vm_init\<lparr>regs := rg, vm_code := [w], mem := m\<rparr>"

text \<open>
  The program \<open>exit\<close> loaded in a machine whose memory holds the constant \<open>0.5\<close> at byte
  address \<open>0x1000\<close>, and the state one fragment execution leaves it in.
\<close>

definition vm_exit_only :: milo_vm_t where
  "vm_exit_only = vm_one_inst 0xFF00000070000000 (\<lambda>_. 9) ((\<lambda>_. 0)(1024 := 0x3F000000))"

definition vm_after_exit :: "milo_fragment_in_t \<Rightarrow> milo_vm_t" where
  "vm_after_exit inp =
     (frag_reset vm_exit_only inp)
       \<lparr>regs := (regs (frag_reset vm_exit_only inp))(0 := 0), pc := 1, cycle_count := 1,
        running := False\<rparr>"

section \<open>Code generation of the shading-language compiler (milo\_glsl.h, milo\_glsl.c)\<close>

text \<open>
  The lexer and the parser are not modelled. The code generator is modelled on the syntax
  tree that \<open>parse_program\<close> builds when it reports no error (\<open>milo_glsl_compile\<close> runs
  the generator only then). In such a tree the only child pointers that can be NULL are
  the initialiser of a declaration, the else branch, the three optional parts of a
  \<open>for\<close> and the value of a \<open>return\<close>; they are \<open>option\<close>s, and the sibling-linked
  lists are lists.
\<close>

datatype milo_token_type_t =
    TOK_EOF | TOK_ERROR | TOK_INT_LIT | TOK_FLOAT_LIT | TOK_IDENT
  | TOK_VOID | TOK_FLOAT | TOK_INT | TOK_VEC2 | TOK_VEC3 | TOK_VEC4 | TOK_MAT3 | TOK_MAT4
  | TOK_SAMPLER2D | TOK_IN | TOK_OUT | TOK_UNIFORM | TOK_CONST | TOK_IF | TOK_ELSE | TOK_FOR
  | TOK_WHILE | TOK_RETURN | TOK_BREAK | TOK_CONTINUE | TOK_DISCARD | TOK_TRUE | TOK_FALSE
  | TOK_PRECISION | TOK_HIGHP | TOK_MEDIUMP | TOK_LOWP | TOK_VERSION | TOK_LAYOUT | TOK_LOCATION
  | TOK_PLUS | TOK_MINUS | TOK_STAR | TOK_SLASH | TOK_PERCENT | TOK_EQ | TOK_NE | TOK_LT
  | TOK_GT | TOK_LE | TOK_GE | TOK_AND | TOK_OR | TOK_NOT | TOK_ASSIGN | TOK_PLUS_ASSIGN
  | TOK_MINUS_ASSIGN | TOK_STAR_ASSIGN | TOK_SLASH_ASSIGN | TOK_INC | TOK_DEC
  | TOK_LPAREN | TOK_RPAREN | TOK_LBRACE | TOK_RBRACE | TOK_LBRACKET | TOK_RBRACKET
  | TOK_COMMA | TOK_SEMICOLON | TOK_DOT | TOK_QUESTION | TOK_COLON | TOK_HASH

datatype milo_type_t =
    TYPE_VOID | TYPE_FLOAT | TYPE_INT | TYPE_VEC2 | TYPE_VEC3 | TYPE_VEC4 | TYPE_MAT3
  | TYPE_MAT4 | TYPE_SAMPLER2D

text \<open>
  The tagged node. \<open>NODE_INT_LIT\<close> carries the \<open>int32_t\<close> and \<open>NODE_FLOAT_LIT\<close> the
  bit pattern of the \<open>float\<close>. The arguments are in the order of the C struct of each
  variant: \<open>NODE_VAR_DECL name var_type is_uniform is_in is_out is_const location init\<close>,
  \<open>NODE_FUNCTION name return_type params body\<close>, \<open>NODE_BINARY op left right\<close>,
  \<open>NODE_UNARY op operand prefix\<close>, \<open>NODE_ASSIGN target value op\<close>,
  \<open>NODE_IF cond then_branch else_branch\<close>, \<open>NODE_FOR init cond post body\<close>.
\<close>

datatype milo_node_t =
    NODE_PROGRAM "milo_node_t list"
  | NODE_FUNCTION string milo_type_t "milo_node_t list" milo_node_t
  | NODE_VAR_DECL string milo_type_t bool bool bool bool int "milo_node_t option"
  | NODE_PARAM string milo_type_t
  | NODE_BLOCK "milo_node_t list"
  | NODE_IF milo_node_t milo_node_t "milo_node_t option"
  | NODE_FOR "milo_node_t option" "milo_node_t option" "milo_node_t option" milo_node_t
  | NODE_WHILE milo_node_t milo_node_t
  | NODE_RETURN "milo_node_t option"
  | NODE_DISCARD
  | NODE_BREAK
  | NODE_CONTINUE
  | NODE_EXPR_STMT milo_node_t
  | NODE_BINARY milo_token_type_t milo_node_t milo_node_t
  | NODE_UNARY milo_token_type_t milo_node_t bool
  | NODE_CALL string "milo_node_t list"
  | NODE_INDEX milo_node_t milo_node_t
  | NODE_MEMBER milo_node_t string
  | NODE_IDENT string
  | NODE_INT_LIT "32 word"
  | NODE_FLOAT_LIT "32 word"
  | NODE_ASSIGN milo_node_t milo_node_t milo_token_type_t
  | NODE_TERNARY milo_node_t milo_node_t milo_node_t
  | NODE_CONSTRUCTOR milo_type_t "milo_node_t list"

record milo_symbol_t =
  sym_name :: string
  sym_type :: milo_type_t
  sym_reg :: int
  sym_is_uniform :: bool
  sym_is_in :: bool
  sym_is_out :: bool
  sym_location :: int

definition MILO_MAX_SYMBOLS :: int where "MILO_MAX_SYMBOLS = 256"
definition MILO_MAX_CODE :: int where "MILO_MAX_CODE = 4096"
definition MILO_MAX_ERRORS :: int where "MILO_MAX_ERRORS = 32"
definition MILO_MAX_CONSTANTS :: int where "MILO_MAX_CONSTANTS = 256"
definition MILO_CONST_BASE_ADDR :: int where "MILO_CONST_BASE_ADDR = 0x1000"

text \<open>
  The fields of the compiler state that the code generator uses: \<open>c_line\<close> is \<open>line\<close>
  (where the lexer stopped; it only appears in error messages), \<open>c_symtab\<close> the symbol
  table, \<open>c_code\<close> the emitted lines, \<open>c_constants\<close> the constant table and \<open>c_errors\<close>
  the error messages (each array with its count is a list). \<open>c_uninit\<close> is not a field of
  the C struct: it records that the generator read an element of \<open>arg_regs\<close> that it never
  wrote (a built-in called with too few arguments), where the register number it prints
  is indeterminate (0 in this model).
\<close>

record milo_compiler_t =
  c_line :: int
  c_symtab :: "milo_symbol_t list"
  c_code :: "string list"
  next_reg :: int
  next_label :: int
  c_constants :: "32 word list"
  c_errors :: "string list"
  c_uninit :: bool

text \<open>\<open>"%.6f"\<close> of a float is not modelled: the generator takes it as a parameter.\<close>

type_synonym fmt_float_t = "32 word \<Rightarrow> string"

definition milo_glsl_init :: milo_compiler_t where
  "milo_glsl_init =
     \<lparr> c_line = 0, c_symtab = [], c_code = [], next_reg = 2, next_label = 0,
       c_constants = [], c_errors = [], c_uninit = False \<rparr>"

definition glsl_error :: "milo_compiler_t \<Rightarrow> string \<Rightarrow> milo_compiler_t" where
  "glsl_error c msg =
     (if int (length (c_errors c)) \<ge> MILO_MAX_ERRORS then c
      else c\<lparr>c_errors := c_errors c @
                [take 255 (''Line '' @ show_int (c_line c) @ '': '' @ take 199 msg)]\<rparr>)"

definition emit :: "milo_compiler_t \<Rightarrow> string \<Rightarrow> milo_compiler_t" where
  "emit c txt =
     (if int (length (c_code c)) \<ge> MILO_MAX_CODE then glsl_error c ''Code too large''
      else c\<lparr>c_code := c_code c @ [take 127 txt]\<rparr>)"

definition alloc_reg :: "milo_compiler_t \<Rightarrow> int \<times> milo_compiler_t" where
  "alloc_reg c = (next_reg c, c\<lparr>next_reg := next_reg c + 1\<rparr>)"

definition alloc_label :: "milo_compiler_t \<Rightarrow> int \<times> milo_compiler_t" where
  "alloc_label c = (next_label c, c\<lparr>next_label := next_label c + 1\<rparr>)"

text \<open>Allocating \<open>n\<close> further registers (the loops \<open>for (i = 1; i < size; i++) alloc_reg(c)\<close>).\<close>

definition alloc_more :: "milo_compiler_t \<Rightarrow> nat \<Rightarrow> milo_compiler_t" where
  "alloc_more c n = c\<lparr>next_reg := next_reg c + int n\<rparr>"

fun find_constant :: "32 word list \<Rightarrow> 32 word \<Rightarrow> int \<Rightarrow> int option" where
  "find_constant [] v i = None"
| "find_constant (k # ks) v i = (if k = v then Some i else find_constant ks v (i + 1))"

definition add_constant :: "milo_compiler_t \<Rightarrow> 32 word \<Rightarrow> int \<times> milo_compiler_t" where
  "add_constant c v =
     (case find_constant (c_constants c) v 0 of
        Some i \<Rightarrow> (MILO_CONST_BASE_ADDR + i * 4, c)
      | None \<Rightarrow>
          if int (length (c_constants c)) \<ge> MILO_MAX_CONSTANTS
          then (MILO_CONST_BASE_ADDR, glsl_error c ''Too many constants'')
          else (MILO_CONST_BASE_ADDR + int (length (c_constants c)) * 4,
                c\<lparr>c_constants := c_constants c @ [v]\<rparr>))"

fun type_size :: "milo_type_t \<Rightarrow> nat" where
  "type_size TYPE_FLOAT = 1"
| "type_size TYPE_INT = 1"
| "type_size TYPE_VEC2 = 2"
| "type_size TYPE_VEC3 = 3"
| "type_size TYPE_VEC4 = 4"
| "type_size TYPE_MAT3 = 9"
| "type_size TYPE_MAT4 = 16"
| "type_size TYPE_VOID = 1"
| "type_size TYPE_SAMPLER2D = 1"

fun find_symbol :: "milo_symbol_t list \<Rightarrow> string \<Rightarrow> milo_symbol_t option" where
  "find_symbol [] nm = None"
| "find_symbol (s # ss) nm = (if sym_name s = nm then Some s else find_symbol ss nm)"

definition add_symbol :: "milo_compiler_t \<Rightarrow> milo_symbol_t \<Rightarrow> milo_compiler_t" where
  "add_symbol c s =
     (if int (length (c_symtab c)) < MILO_MAX_SYMBOLS then c\<lparr>c_symtab := c_symtab c @ [s]\<rparr> else c)"

text \<open>\<open>"r%d"\<close>, and the element \<open>k\<close> of \<open>arg_regs\<close>.\<close>

definition reg_name :: "int \<Rightarrow> string" where
  "reg_name i = CHR ''r'' # show_int i"

definition arg_reg :: "int list \<Rightarrow> nat \<Rightarrow> int" where
  "arg_reg rs k = (if k < length rs then rs ! k else 0)"

definition need_args :: "milo_compiler_t \<Rightarrow> int list \<Rightarrow> nat \<Rightarrow> milo_compiler_t" where
  "need_args c rs n = (if length rs < n then c\<lparr>c_uninit := True\<rparr> else c)"

text \<open>The component-wise loops of an assignment.\<close>

fun emit_components ::
  "milo_compiler_t \<Rightarrow> string \<Rightarrow> bool \<Rightarrow> int \<Rightarrow> int \<Rightarrow> nat \<Rightarrow> nat \<Rightarrow> milo_compiler_t" where
  "emit_components c opn three r val j 0 = c"
| "emit_components c opn three r val j (Suc n) =
     emit_components
       (emit c (''    '' @ opn @ '' '' @ reg_name (r + int j) @ '', ''
                @ (if three then reg_name (r + int j) @ '', '' else [])
                @ reg_name (val + int j)))
       opn three r val (j + 1) n"

text \<open>The built-in functions of \<open>NODE_CALL\<close>, once the arguments are in \<open>rs\<close>.\<close>

definition gen_builtin :: "milo_compiler_t \<Rightarrow> string \<Rightarrow> int list \<Rightarrow> int \<times> milo_compiler_t" where
  "gen_builtin c0 nm rs =
     (let (r, c) = alloc_reg c0;
          a0 = reg_name (arg_reg rs 0); a1 = reg_name (arg_reg rs 1); a2 = reg_name (arg_reg rs 2)
      in if nm = ''sin'' then (r, emit (need_args c rs 1) (''    sin '' @ reg_name r @ '', '' @ a0))
         else if nm = ''cos'' then (r, emit (need_args c rs 1) (''    cos '' @ reg_name r @ '', '' @ a0))
         else if nm = ''sqrt'' then (r, emit (need_args c rs 1) (''    sqrt '' @ reg_name r @ '', '' @ a0))
         else if nm = ''abs'' then (r, emit (need_args c rs 1) (''    fabs '' @ reg_name r @ '', '' @ a0))
         else if nm = ''min'' then
           (r, emit (need_args c rs 2) (''    fmin '' @ reg_name r @ '', '' @ a0 @ '', '' @ a1))
         else if nm = ''max'' then
           (r, emit (need_args c rs 2) (''    fmax '' @ reg_name r @ '', '' @ a0 @ '', '' @ a1))
         else if nm = ''clamp'' then
           (r, emit (emit (need_args c rs 3) (''    fmax '' @ reg_name r @ '', '' @ a0 @ '', '' @ a1))
                 (''    fmin '' @ reg_name r @ '', '' @ reg_name r @ '', '' @ a2))
         else if nm = ''dot'' then
           (let (t1, c1) = alloc_reg c; (t2, c2) = alloc_reg c1;
                c3 = emit (need_args c2 rs 2) (''    fmul '' @ reg_name r @ '', '' @ a0 @ '', '' @ a1);
                c4 = emit c3 (''    fmul '' @ reg_name t1 @ '', '' @ reg_name (arg_reg rs 0 + 1) @ '', ''
                              @ reg_name (arg_reg rs 1 + 1));
                c5 = emit c4 (''    fmul '' @ reg_name t2 @ '', '' @ reg_name (arg_reg rs 0 + 2) @ '', ''
                              @ reg_name (arg_reg rs 1 + 2));
                c6 = emit c5 (''    fadd '' @ reg_name r @ '', '' @ reg_name r @ '', '' @ reg_name t1)
            in (r, emit c6 (''    fadd '' @ reg_name r @ '', '' @ reg_name r @ '', '' @ reg_name t2)))
         else if nm = ''normalize'' then
           (let (len, c1) = alloc_reg c;
                c2 = emit c1 ''    ; normalize (simplified)'';
                c3 = emit (need_args c2 rs 1) (''    fmul '' @ reg_name len @ '', '' @ a0 @ '', '' @ a0);
                c4 = emit c3 (''    rsq '' @ reg_name len @ '', '' @ reg_name len)
            in (r, emit c4 (''    fmul '' @ reg_name r @ '', '' @ a0 @ '', '' @ reg_name len)))
         else if nm = ''texture'' then
           (r, emit (need_args c rs 2) (''    tex '' @ reg_name r @ '', '' @ a0 @ '', '' @ a1))
         else if nm = ''mix'' then
           (let (t, c1) = alloc_reg c;
                c2 = emit (need_args c1 rs 2) (''    fsub '' @ reg_name t @ '', '' @ a1 @ '', '' @ a0);
                c3 = emit (need_args c2 rs 3) (''    fmul '' @ reg_name t @ '', '' @ reg_name t @ '', '' @ a2)
            in (r, emit c3 (''    fadd '' @ reg_name r @ '', '' @ a0 @ '', '' @ reg_name t)))
         else (r, glsl_error c (''Unknown function: '' @ nm)))"

text \<open>The swizzle offset of the first member character.\<close>

definition swizzle_offset :: "string \<Rightarrow> int" where
  "swizzle_offset m =
     (case m of
        [] \<Rightarrow> 0
      | ch # _ \<Rightarrow>
          if ch = CHR ''x'' \<or> ch = CHR ''r'' \<or> ch = CHR ''s'' then 0
          else if ch = CHR ''y'' \<or> ch = CHR ''g'' \<or> ch = CHR ''t'' then 1
          else if ch = CHR ''z'' \<or> ch = CHR ''b'' \<or> ch = CHR ''p'' then 2
          else if ch = CHR ''w'' \<or> ch = CHR ''a'' \<or> ch = CHR ''q'' then 3
          else 0)"

text \<open>The assignment to a symbol found in the table.\<close>

definition gen_assign_to ::
  "milo_compiler_t \<Rightarrow> milo_symbol_t \<Rightarrow> milo_token_type_t \<Rightarrow> int \<Rightarrow> milo_compiler_t" where
  "gen_assign_to c s op val =
     (let r = sym_reg s; n = type_size (sym_type s)
      in if op = TOK_ASSIGN then emit_components c ''mov'' False r val 0 n
         else if op = TOK_PLUS_ASSIGN then emit_components c ''fadd'' True r val 0 n
         else if op = TOK_MINUS_ASSIGN then emit_components c ''fsub'' True r val 0 n
         else if op = TOK_STAR_ASSIGN then emit_components c ''fmul'' True r val 0 n
         else if op = TOK_SLASH_ASSIGN then emit_components c ''fdiv'' True r val 0 n
         else c)"

fun gen_expr :: "fmt_float_t \<Rightarrow> milo_compiler_t \<Rightarrow> milo_node_t \<Rightarrow> int \<times> milo_compiler_t"
  and gen_args :: "fmt_float_t \<Rightarrow> milo_compiler_t \<Rightarrow> milo_node_t list \<Rightarrow> nat
                   \<Rightarrow> int list \<times> milo_compiler_t"
  and gen_con_args :: "fmt_float_t \<Rightarrow> milo_compiler_t \<Rightarrow> milo_node_t list \<Rightarrow> int \<Rightarrow> nat \<Rightarrow> nat
                       \<Rightarrow> milo_compiler_t"
where
  "gen_expr ff c0 (NODE_INT_LIT v) =
     (let (r, c) = alloc_reg c0; val = sint v
      in if - 524288 \<le> val \<and> val \<le> 524287
         then (r, emit c (''    addi '' @ reg_name r @ '', r0, '' @ show_int val))
         else (let (addr, c1) = add_constant c v
               in (r, emit c1 (''    ldr '' @ reg_name r @ '', r0, '' @ show_int addr @ ''  ; int ''
                               @ show_int val))))"
| "gen_expr ff c0 (NODE_FLOAT_LIT v) =
     (let (r, c) = alloc_reg c0; (addr, c1) = add_constant c v
      in (r, emit c1 (''    ldr '' @ reg_name r @ '', r0, '' @ show_int addr @ ''  ; '' @ ff v)))"
| "gen_expr ff c (NODE_IDENT nm) =
     (case find_symbol (c_symtab c) nm of
        Some s \<Rightarrow> (sym_reg s, c)
      | None \<Rightarrow> alloc_reg (glsl_error c (''Undefined variable: '' @ nm)))"
| "gen_expr ff c (NODE_BINARY op l rt) =
     (let (left, c1) = gen_expr ff c l;
          (right, c2) = gen_expr ff c1 rt;
          (r, c3) = alloc_reg c2;
          plain = (\<lambda>opn. (r, emit c3 (''    '' @ opn @ '' '' @ reg_name r @ '', '' @ reg_name left @ '', ''
                                      @ reg_name right)))
      in if op = TOK_PLUS then plain ''fadd''
         else if op = TOK_MINUS then plain ''fsub''
         else if op = TOK_STAR then plain ''fmul''
         else if op = TOK_SLASH then plain ''fdiv''
         else if op = TOK_LT then plain ''fslt''
         else if op = TOK_LE then plain ''fsle''
         else if op = TOK_GT then
           (r, emit c3 (''    fslt '' @ reg_name r @ '', '' @ reg_name right @ '', '' @ reg_name left))
         else if op = TOK_GE then
           (r, emit c3 (''    fsle '' @ reg_name r @ '', '' @ reg_name right @ '', '' @ reg_name left))
         else if op = TOK_EQ then plain ''fseq''
         else if op = TOK_NE then
           (r, emit (emit c3 (''    fseq '' @ reg_name r @ '', '' @ reg_name left @ '', '' @ reg_name right))
                 (''    xori '' @ reg_name r @ '', '' @ reg_name r @ '', 1''))
         else plain ''add'')"
| "gen_expr ff c (NODE_UNARY op e pre) =
     (let (operand, c1) = gen_expr ff c e;
          (r, c2) = alloc_reg c1
      in if op = TOK_MINUS then (r, emit c2 (''    fneg '' @ reg_name r @ '', '' @ reg_name operand))
         else if op = TOK_NOT then (r, emit c2 (''    xori '' @ reg_name r @ '', '' @ reg_name operand @ '', 1''))
         else (r, emit c2 (''    mov '' @ reg_name r @ '', '' @ reg_name operand)))"
| "gen_expr ff c (NODE_CALL nm args) =
     (let (rs, c1) = gen_args ff c args 0 in gen_builtin c1 nm rs)"
| "gen_expr ff c0 (NODE_CONSTRUCTOR ty args) =
     (let (r, c) = alloc_reg c0;
          n = type_size ty;
          c1 = alloc_more c (n - 1)
      in (r, gen_con_args ff c1 args r 0 n))"
| "gen_expr ff c (NODE_MEMBER obj m) =
     (let (ob, c1) = gen_expr ff c obj;
          (r, c2) = alloc_reg c1
      in (r, emit c2 (''    mov '' @ reg_name r @ '', '' @ reg_name (ob + swizzle_offset m) @ ''  ; .'' @ m)))"
| "gen_expr ff c (NODE_ASSIGN target v op) =
     (let (val, c1) = gen_expr ff c v
      in case target of
           NODE_IDENT nm \<Rightarrow>
             (case find_symbol (c_symtab c1) nm of
                Some s \<Rightarrow> (sym_reg s, gen_assign_to c1 s op val)
              | None \<Rightarrow> (val, glsl_error c1 (''Undefined variable: '' @ nm)))
         | _ \<Rightarrow> (val, c1))"
| "gen_expr ff c (NODE_TERNARY cnd th el) =
     (let (cond, c1) = gen_expr ff c cnd;
          (then_val, c2) = gen_expr ff c1 th;
          (else_val, c3) = gen_expr ff c2 el;
          (r, c4) = alloc_reg c3
      in (r, emit c4 (''    selp '' @ reg_name r @ '', '' @ reg_name then_val @ '', '' @ reg_name else_val @ '', ''
                      @ reg_name cond)))"
| "gen_expr ff c (NODE_PROGRAM ds) = alloc_reg (glsl_error c ''Unsupported expression type'')"
| "gen_expr ff c (NODE_FUNCTION nm ty ps b) = alloc_reg (glsl_error c ''Unsupported expression type'')"
| "gen_expr ff c (NODE_VAR_DECL nm ty u i ou k loc ini) =
     alloc_reg (glsl_error c ''Unsupported expression type'')"
| "gen_expr ff c (NODE_PARAM nm ty) = alloc_reg (glsl_error c ''Unsupported expression type'')"
| "gen_expr ff c (NODE_BLOCK ss) = alloc_reg (glsl_error c ''Unsupported expression type'')"
| "gen_expr ff c (NODE_IF cnd th el) = alloc_reg (glsl_error c ''Unsupported expression type'')"
| "gen_expr ff c (NODE_FOR ini cnd post b) = alloc_reg (glsl_error c ''Unsupported expression type'')"
| "gen_expr ff c (NODE_WHILE cnd b) = alloc_reg (glsl_error c ''Unsupported expression type'')"
| "gen_expr ff c (NODE_RETURN v) = alloc_reg (glsl_error c ''Unsupported expression type'')"
| "gen_expr ff c NODE_DISCARD = alloc_reg (glsl_error c ''Unsupported expression type'')"
| "gen_expr ff c NODE_BREAK = alloc_reg (glsl_error c ''Unsupported expression type'')"
| "gen_expr ff c NODE_CONTINUE = alloc_reg (glsl_error c ''Unsupported expression type'')"
| "gen_expr ff c (NODE_EXPR_STMT e) = alloc_reg (glsl_error c ''Unsupported expression type'')"
| "gen_expr ff c (NODE_INDEX ob ix) = alloc_reg (glsl_error c ''Unsupported expression type'')"
| "gen_args ff c [] i = ([], c)"
| "gen_args ff c (a # as) i =
     (if i < 8
      then (let (r, c1) = gen_expr ff c a;
                (rs, c2) = gen_args ff c1 as (i + 1)
            in (r # rs, c2))
      else ([], c))"
| "gen_con_args ff c [] r i n = c"
| "gen_con_args ff c (a # as) r i n =
     (if i < n
      then (let (v, c1) = gen_expr ff c a
            in gen_con_args ff (emit c1 (''    mov '' @ reg_name (r + int i) @ '', '' @ reg_name v)) as r (i + 1) n)
      else c)"

text \<open>\<open>"L%d"\<close>.\<close>

definition label_name :: "int \<Rightarrow> string" where
  "label_name i = CHR ''L'' # show_int i"

text \<open>
  The symbol a local declaration adds: only name, type and register are written, the
  other fields keep the zeros of \<open>milo_glsl_init\<close>.
\<close>

definition local_symbol :: "string \<Rightarrow> milo_type_t \<Rightarrow> int \<Rightarrow> milo_symbol_t" where
  "local_symbol nm ty r =
     \<lparr> sym_name = nm, sym_type = ty, sym_reg = r, sym_is_uniform = False, sym_is_in = False,
       sym_is_out = False, sym_location = 0 \<rparr>"

fun gen_stmt :: "fmt_float_t \<Rightarrow> milo_compiler_t \<Rightarrow> milo_node_t \<Rightarrow> milo_compiler_t"
  and gen_stmts :: "fmt_float_t \<Rightarrow> milo_compiler_t \<Rightarrow> milo_node_t list \<Rightarrow> milo_compiler_t"
where
  "gen_stmt ff c (NODE_BLOCK ss) = gen_stmts ff c ss"
| "gen_stmt ff c0 (NODE_VAR_DECL nm ty u i ou k loc ini) =
     (let (r, c) = alloc_reg c0;
          c1 = alloc_more c (type_size ty - 1);
          c2 = add_symbol c1 (local_symbol nm ty r)
      in case ini of
           None \<Rightarrow> c2
         | Some e \<Rightarrow>
             (let (val, c3) = gen_expr ff c2 e
              in emit c3 (''    mov '' @ reg_name r @ '', '' @ reg_name val @ ''  ; '' @ nm)))"
| "gen_stmt ff c (NODE_EXPR_STMT e) = snd (gen_expr ff c e)"
| "gen_stmt ff c (NODE_RETURN v) =
     (case v of
        None \<Rightarrow> emit c ''    ret''
      | Some e \<Rightarrow>
          (let (val, c1) = gen_expr ff c e
           in emit (emit c1 (''    mov r1, '' @ reg_name val @ ''  ; return value'')) ''    ret''))"
| "gen_stmt ff c NODE_DISCARD = emit (emit c ''    ; discard fragment'') ''    exit''"
| "gen_stmt ff c (NODE_IF cnd th el) =
     (let (cond, c1) = gen_expr ff c cnd;
          (else_label, c2) = alloc_label c1;
          (end_label, c3) = alloc_label c2;
          c4 = emit c3 (''    ssy '' @ label_name else_label @ ''  ; if'');
          c5 = emit c4 (''    beq '' @ reg_name cond @ '', r0, '' @ label_name else_label);
          c6 = gen_stmt ff c5 th;
          c7 = (case el of
                  Some e \<Rightarrow>
                    (let c8 = emit c6 (''    bra '' @ label_name end_label);
                         c9 = emit c8 (label_name else_label @ '':'');
                         c10 = gen_stmt ff c9 e
                     in emit c10 (label_name end_label @ '':''))
                | None \<Rightarrow> emit c6 (label_name else_label @ '':''))
      in emit c7 ''    join'')"
| "gen_stmt ff c (NODE_FOR ini cnd post b) =
     (let (loop_label, c1) = alloc_label c;
          (end_label, c2) = alloc_label c1;
          c3 = (case ini of Some s \<Rightarrow> gen_stmt ff c2 s | None \<Rightarrow> c2);
          c4 = emit c3 (label_name loop_label @ '':  ; for loop'');
          c5 = emit c4 (''    ssy '' @ label_name end_label);
          c6 = (case cnd of
                  Some e \<Rightarrow>
                    (let (cond, c7) = gen_expr ff c5 e
                     in emit c7 (''    beq '' @ reg_name cond @ '', r0, '' @ label_name end_label))
                | None \<Rightarrow> c5);
          c8 = gen_stmt ff c6 b;
          c9 = (case post of Some e \<Rightarrow> snd (gen_expr ff c8 e) | None \<Rightarrow> c8);
          c10 = emit c9 (''    bra '' @ label_name loop_label);
          c11 = emit c10 (label_name end_label @ '':'')
      in emit c11 ''    join'')"
| "gen_stmt ff c (NODE_WHILE cnd b) =
     (let (loop_label, c1) = alloc_label c;
          (end_label, c2) = alloc_label c1;
          c3 = emit c2 (label_name loop_label @ '':  ; while loop'');
          c4 = emit c3 (''    ssy '' @ label_name end_label);
          (cond, c5) = gen_expr ff c4 cnd;
          c6 = emit c5 (''    beq '' @ reg_name cond @ '', r0, '' @ label_name end_label);
          c7 = gen_stmt ff c6 b;
          c8 = emit c7 (''    bra '' @ label_name loop_label);
          c9 = emit c8 (label_name end_label @ '':'')
      in emit c9 ''    join'')"
| "gen_stmt ff c NODE_BREAK = emit c ''    join  ; break''"
| "gen_stmt ff c NODE_CONTINUE = emit c ''    ; continue (TODO)''"
| "gen_stmt ff c (NODE_PROGRAM ds) = c"
| "gen_stmt ff c (NODE_FUNCTION nm ty ps b) = c"
| "gen_stmt ff c (NODE_PARAM nm ty) = c"
| "gen_stmt ff c (NODE_BINARY op l r) = c"
| "gen_stmt ff c (NODE_UNARY op e pre) = c"
| "gen_stmt ff c (NODE_CALL nm args) = c"
| "gen_stmt ff c (NODE_INDEX ob ix) = c"
| "gen_stmt ff c (NODE_MEMBER ob m) = c"
| "gen_stmt ff c (NODE_IDENT nm) = c"
| "gen_stmt ff c (NODE_INT_LIT v) = c"
| "gen_stmt ff c (NODE_FLOAT_LIT v) = c"
| "gen_stmt ff c (NODE_ASSIGN t v op) = c"
| "gen_stmt ff c (NODE_TERNARY cnd th el) = c"
| "gen_stmt ff c (NODE_CONSTRUCTOR ty args) = c"
| "gen_stmts ff c [] = c"
| "gen_stmts ff c (s # ss) = gen_stmts ff (gen_stmt ff c s) ss"

text \<open>
  The parameters of a function are \<open>NODE_PARAM\<close> nodes; the loop of \<open>gen_function\<close>
  that enters them in the symbol table, from register \<open>param_reg\<close> on.
\<close>

fun gen_params :: "milo_compiler_t \<Rightarrow> milo_node_t list \<Rightarrow> int \<Rightarrow> int \<times> milo_compiler_t" where
  "gen_params c [] param_reg = (param_reg, c)"
| "gen_params c (NODE_PARAM nm ty # ps) param_reg =
     (if int (length (c_symtab c)) < MILO_MAX_SYMBOLS
      then gen_params (c\<lparr>c_symtab := c_symtab c @ [local_symbol nm ty param_reg]\<rparr>) ps
             (param_reg + int (type_size ty))
      else gen_params c ps param_reg)"
| "gen_params c (_ # ps) param_reg = gen_params c ps param_reg"

definition gen_function ::
  "fmt_float_t \<Rightarrow> milo_compiler_t \<Rightarrow> string \<Rightarrow> milo_node_t list \<Rightarrow> milo_node_t
   \<Rightarrow> milo_compiler_t" where
  "gen_function ff c0 nm ps body =
     (let c1 = emit c0 (''; Function: '' @ nm);
          c2 = emit c1 (nm @ '':'');
          (param_reg, c3) = gen_params c2 ps (next_reg c2);
          c4 = (if param_reg > next_reg c3 then c3\<lparr>next_reg := param_reg\<rparr> else c3);
          c5 = gen_stmt ff c4 body;
          c6 = (if nm = ''main'' then emit c5 ''    exit'' else emit c5 ''    ret'')
      in emit c6 [])"

text \<open>The two passes of \<open>gen_program\<close> over the top-level declarations.\<close>

fun gen_globals :: "milo_compiler_t \<Rightarrow> milo_node_t list \<Rightarrow> milo_compiler_t" where
  "gen_globals c [] = c"
| "gen_globals c0 (NODE_VAR_DECL nm ty u i ou k loc ini # ds) =
     (let (r, c) = alloc_reg c0;
          c1 = alloc_more c (type_size ty - 1);
          c2 = add_symbol c1
                 \<lparr> sym_name = nm, sym_type = ty, sym_reg = r, sym_is_uniform = u, sym_is_in = i,
                   sym_is_out = ou, sym_location = loc \<rparr>;
          qual = (if u then ''uniform '' else if i then ''in '' else if ou then ''out '' else [])
      in gen_globals (emit c2 (''; '' @ qual @ nm @ '' -> '' @ reg_name r)) ds)"
| "gen_globals c (_ # ds) = gen_globals c ds"

fun gen_functions :: "fmt_float_t \<Rightarrow> milo_compiler_t \<Rightarrow> milo_node_t list \<Rightarrow> milo_compiler_t" where
  "gen_functions ff c [] = c"
| "gen_functions ff c (NODE_FUNCTION nm ty ps b # ds) =
     gen_functions ff (gen_function ff c nm ps b) ds"
| "gen_functions ff c (_ # ds) = gen_functions ff c ds"

text \<open>\<open>c->ast\<close> is the \<open>NODE_PROGRAM\<close> node; the generator is only run on one.\<close>

fun program_decls :: "milo_node_t \<Rightarrow> milo_node_t list" where
  "program_decls (NODE_PROGRAM ds) = ds"
| "program_decls (NODE_BLOCK ds) = ds"
| "program_decls _ = []"

definition gen_program :: "fmt_float_t \<Rightarrow> milo_compiler_t \<Rightarrow> milo_node_t \<Rightarrow> milo_compiler_t" where
  "gen_program ff c0 ast =
     (let c1 = emit c0 ''; Milo832 GPU Shader'';
          c2 = emit c1 ''; Generated by milo_glsl compiler'';
          c3 = emit c2 [];
          c4 = gen_globals c3 (program_decls ast);
          c5 = emit c4 []
      in gen_functions ff c5 (program_decls ast))"

text \<open>
  \<open>milo_glsl_compile\<close> after the parser: \<open>ast\<close> is the tree \<open>parse_program\<close> built and
  \<open>lin\<close> the line where the lexer stopped. The generator runs only if no error was
  reported, and the result is whether there is still none.
\<close>

definition milo_glsl_compile_ast ::
  "fmt_float_t \<Rightarrow> milo_compiler_t \<Rightarrow> int \<Rightarrow> milo_node_t \<Rightarrow> bool \<times> milo_compiler_t" where
  "milo_glsl_compile_ast ff c lin ast =
     (if c_errors c \<noteq> [] then (False, c\<lparr>c_line := lin\<rparr>)
      else (let c1 = gen_program ff (c\<lparr>c_line := lin\<rparr>) ast in (c_errors c1 = [], c1)))"

text \<open>
  \<open>milo_glsl_get_asm\<close>: the emitted lines, then the constant table as \<open>.data\<close> lines.
  The static buffer holds \<open>MILO_MAX_CODE * 128\<close> bytes; \<open>None\<close> is a text that does not
  fit in it with its terminator.
\<close>

fun data_lines :: "fmt_float_t \<Rightarrow> 32 word list \<Rightarrow> int \<Rightarrow> string" where
  "data_lines ff [] i = []"
| "data_lines ff (k # ks) i =
     take 127 (''.data 0x'' @ show_hex_pad 4 (MILO_CONST_BASE_ADDR + i * 4) @ '', 0x''
               @ show_hex_pad 8 (uint k) @ ''  ; '' @ ff k @ [CHR 0x0A])
     @ data_lines ff ks (i + 1)"

definition milo_glsl_get_asm :: "fmt_float_t \<Rightarrow> milo_compiler_t \<Rightarrow> string option" where
  "milo_glsl_get_asm ff c =
     (let body = concat (map (\<lambda>l. l @ [CHR 0x0A]) (c_code c));
          consts =
            (if c_constants c = [] then []
             else [CHR 0x0A] @ ''; Constant data section'' @ [CHR 0x0A]
                  @ take 127 (''; Base address: 0x'' @ show_hex_pad 4 MILO_CONST_BASE_ADDR @ '' (''
                              @ show_int (int (length (c_constants c))) @ '' constants)''
                              @ [CHR 0x0A])
                  @ data_lines ff (c_constants c) 0);
          txt = body @ consts
      in if int (length txt) < MILO_MAX_CODE * 128 then Some txt else None)"

section \<open>Example shaders\<close>

text \<open>
  The syntax tree of the gradient shader

  \<^verbatim>\<open>in vec2 v_texcoord; out vec4 fragColor;\<close>
  \<^verbatim>\<open>void main(){ fragColor = vec4(v_texcoord.x, v_texcoord.y, 0.5, 1.0); }\<close>

  (a declaration without \<open>layout\<close> has location \<open>-1\<close>; \<open>0x3F000000\<close> and \<open>0x3F800000\<close> are
  the floats \<open>0.5\<close> and \<open>1.0\<close>), and what \<open>"%.6f"\<close> prints for its two literals.
\<close>

definition gradient_ast :: milo_node_t where
  "gradient_ast =
     NODE_PROGRAM
       [NODE_VAR_DECL ''v_texcoord'' TYPE_VEC2 False True False False (- 1) None,
        NODE_VAR_DECL ''fragColor'' TYPE_VEC4 False False True False (- 1) None,
        NODE_FUNCTION ''main'' TYPE_VOID []
          (NODE_BLOCK
             [NODE_EXPR_STMT
                (NODE_ASSIGN (NODE_IDENT ''fragColor'')
                   (NODE_CONSTRUCTOR TYPE_VEC4
                      [NODE_MEMBER (NODE_IDENT ''v_texcoord'') ''x'',
                       NODE_MEMBER (NODE_IDENT ''v_texcoord'') ''y'',
                       NODE_FLOAT_LIT 0x3F000000,
                       NODE_FLOAT_LIT 0x3F800000])
                   TOK_ASSIGN)])]"

definition gradient_fmt :: fmt_float_t where
  "gradient_fmt w = (if w = 0x3F000000 then ''0.500000'' else ''1.000000'')"

text \<open>
  The syntax tree of

  \<^verbatim>\<open>in vec2 v_texcoord; out vec4 fragColor;\<close>
  \<^verbatim>\<open>void main(){ if (true) { fragColor = vec4(1, 1, 1, 1); } }\<close>

  (the parser turns \<open>true\<close> into the integer literal 1).
\<close>

definition if_true_ast :: milo_node_t where
  "if_true_ast =
     NODE_PROGRAM
       [NODE_VAR_DECL ''v_texcoord'' TYPE_VEC2 False True False False (- 1) None,
        NODE_VAR_DECL ''fragColor'' TYPE_VEC4 False False True False (- 1) None,
        NODE_FUNCTION ''main'' TYPE_VOID []
          (NODE_BLOCK
             [NODE_IF (NODE_INT_LIT 1)
                (NODE_BLOCK
                   [NODE_EXPR_STMT
                      (NODE_ASSIGN (NODE_IDENT ''fragColor'')
                         (NODE_CONSTRUCTOR TYPE_VEC4
                            [NODE_INT_LIT 1, NODE_INT_LIT 1, NODE_INT_LIT 1, NODE_INT_LIT 1])
                         TOK_ASSIGN)])
                None])]"
section \<open>Properties of the encoding\<close>


lemma keep_mask: "(0xFFFFFFFF000FFFFF :: 64 word) = NOT (push_bit 20 (mask 12))"
  by (simp add: mask_eq_exp_minus_1 not_eq_complement push_bit_eq_mult)

lemma pg_default_mask: "(0x70000000 :: 64 word) = push_bit 28 (mask 3)"
  by (simp add: mask_eq_exp_minus_1 push_bit_eq_mult)

lemma nibble_mask: "(0xF :: 64 word) = mask 4"
  by (simp add: mask_eq_exp_minus_1)

lemma seven_mask: "(7 :: 64 word) = mask 3"
  by (simp add: mask_eq_exp_minus_1)


lemma pred_nibble_default: "pred_nibble ((w AND 0xFFFFFFFF000FFFFF) OR 0x70000000) = 0x7"
  unfolding pred_nibble_def keep_mask pg_default_mask nibble_mask seven_mask
  by (rule bit_word_eqI) (auto simp add: bit_simps)

lemma field8:
  "k + 8 \<le> 64 \<Longrightarrow>
   push_bit k (ucast (ucast (drop_bit k w AND mask 8) :: 8 word)) = ((w :: 64 word) AND push_bit k (mask 8))"
  apply (rule bit_word_eqI)
  apply (simp add: bit_simps)
  apply auto
  done

lemma field20:
  "ucast ((ucast (w AND mask 32) :: 32 word) AND mask 20) = ((w :: 64 word) AND mask 20)"
  apply (rule bit_word_eqI)
  apply (simp add: bit_simps)
  apply auto
  done

lemma encode_decode_eq:
  "milo_encode_inst (milo_decode_inst w) = (w AND 0xFFFFFFFF000FFFFF) OR 0x70000000"
proof -
  have c1: "(0xFF :: 64 word) = mask 8" by (simp add: mask_eq_exp_minus_1)
  have c2: "(0xFFFFFFFF :: 64 word) = mask 32" by (simp add: mask_eq_exp_minus_1)
  have c3: "(0xFFFFF :: 32 word) = mask 20" by (simp add: mask_eq_exp_minus_1)
  have k: "(push_bit 56 (mask 8) OR push_bit 48 (mask 8) OR push_bit 40 (mask 8)
            OR push_bit 32 (mask 8) OR mask 20 :: 64 word) = 0xFFFFFFFF000FFFFF"
    by (simp add: mask_eq_exp_minus_1 push_bit_eq_mult)
  have "milo_encode_inst (milo_decode_inst w) =
        (push_bit 56 (ucast (ucast (drop_bit 56 w AND 0xFF) :: 8 word))
        OR push_bit 48 (ucast (ucast (drop_bit 48 w AND 0xFF) :: 8 word))
        OR push_bit 40 (ucast (ucast (drop_bit 40 w AND 0xFF) :: 8 word))
        OR push_bit 32 (ucast (ucast (drop_bit 32 w AND 0xFF) :: 8 word)))
        OR 0x70000000
        OR ucast ((ucast (w AND 0xFFFFFFFF) :: 32 word) AND 0xFFFFF)"
    by (simp add: milo_encode_inst_def milo_decode_inst_def Let_def)
  also have "\<dots> = (w AND push_bit 56 (mask 8) OR w AND push_bit 48 (mask 8)
        OR w AND push_bit 40 (mask 8) OR w AND push_bit 32 (mask 8)) OR 0x70000000 OR w AND mask 20"
    unfolding c1 c2 c3 by (simp only: field8 field20)
  also have "\<dots> = (w AND (push_bit 56 (mask 8) OR push_bit 48 (mask 8) OR push_bit 40 (mask 8)
            OR push_bit 32 (mask 8) OR mask 20)) OR 0x70000000"
    by (simp only: bit.conj_disj_distrib ac_simps)
  finally show ?thesis unfolding k .
qed

text \<open>
  Claim C3 as stated fails: the decoder sets \<open>pred\<close> to 0 and the encoder writes the default
  \<open>0x7\<close> for it, so the predicate nibble of the word 0 does not survive decode-then-encode.
\<close>

theorem C3_pred_nibble_roundtrip_counterexample:
  "pred_nibble (milo_encode_inst (milo_decode_inst 0)) \<noteq> pred_nibble 0"
  by (simp add: pred_nibble_def milo_encode_inst_def milo_decode_inst_def)

text \<open>
  Claim C3, amended: for every 64-bit word \<open>w\<close>, \<open>milo_encode_inst (milo_decode_inst w)\<close>
  keeps bits 63..32 (opcode, rd, rs1, rs2) and bits 19..0 (the low 20 immediate bits) of
  \<open>w\<close>, clears bits 27..20 and sets the predicate nibble (bits 31..28) to \<open>0x7\<close>; so the
  nibble round-trips exactly when it is \<open>0x7\<close> in \<open>w\<close>.
\<close>

theorem C3_encode_decode:
  "milo_encode_inst (milo_decode_inst w) = (w AND 0xFFFFFFFF000FFFFF) OR 0x70000000
   \<and> pred_nibble (milo_encode_inst (milo_decode_inst w)) = 0x7
   \<and> (pred_nibble (milo_encode_inst (milo_decode_inst w)) = pred_nibble w
        \<longleftrightarrow> pred_nibble w = 0x7)"
  by (auto simp add: encode_decode_eq pred_nibble_default)

section \<open>Properties of label resolution\<close>

lemma find_label_None: "find_label ls nm = None \<longleftrightarrow> nm \<notin> name ` set ls"
  by (induction ls) auto



lemma resolve_loop_error:
  "\<not> fst (resolve_loop us as) \<Longrightarrow>
   \<exists>u\<in>set us. u_label u \<notin> name ` set (labels as) \<and>
     error (snd (resolve_loop us as)) = take 255 (''Undefined label: '' @ u_label u)"
proof (induction us arbitrary: as)
  case Nil
  then show ?case by simp
next
  case (Cons u us)
  show ?case
  proof (cases "find_label (labels as) (u_label u)")
    case None
    then have "error (snd (resolve_loop (u # us) as)) = take 255 (''Undefined label: '' @ u_label u)"
      by (simp add: asm_fail_def)
    moreover from None have "u_label u \<notin> name ` set (labels as)"
      by (simp add: find_label_None)
    ultimately show ?thesis by (meson list.set_intros(1))
  next
    case (Some a)
    let ?as1 = "as\<lparr>code := patch_label (code as) (u_address u) a\<rparr>"
    from Some have eq: "resolve_loop (u # us) as = resolve_loop us ?as1" by simp
    with Cons.prems have "\<not> fst (resolve_loop us ?as1)" by simp
    from Cons.IH [OF this] obtain v where "v \<in> set us"
      "u_label v \<notin> name ` set (labels as)"
      "error (snd (resolve_loop us ?as1)) = take 255 (''Undefined label: '' @ u_label v)"
      by auto
    with eq show ?thesis by (metis list.set_intros(2))
  qed
qed




text \<open>The one-line program \<open>L: bra L\<close>, through \<open>milo_asm_source\<close>.\<close>

lemma bra_example:
  "milo_asm_source strtof (milo_asm_init unres) ''L: bra L'' =
     (True, \<lparr>code = [0x2200000000000000], labels = [\<lparr>name = ''L'', address = 0\<rparr>],
             error = [], error_line = 0, unresolved = []\<rparr>)"
  by code_simp

subsection \<open>What the first pass records\<close>


















subsection \<open>Example programs\<close>






subsection \<open>Resolution of a whole unit\<close>






text \<open>
  Claim C4 (a defect of the code): the assembler emits \<open>L: bra L\<close> with the predicate nibble
  \<open>0x7\<close>, and \<open>milo_asm_resolve\<close> then overwrites the whole low half of the word, so the
  final program's only word has predicate nibble 0.
\<close>

theorem C4_resolve_clears_pred_nibble:
  "map pred_nibble (code (snd (asm_source_loop strtof (milo_asm_init []) ''L: bra L'' 1))) = [0x7]
   \<and> fst (milo_asm_source strtof (milo_asm_init unres) ''L: bra L'')
   \<and> map pred_nibble (code (snd (milo_asm_source strtof (milo_asm_init unres) ''L: bra L''))) = [0]"
proof -
  have "asm_source_loop strtof (milo_asm_init []) ''L: bra L'' 1 =
     (True, \<lparr>code = [0x2200000070000000], labels = [\<lparr>name = ''L'', address = 0\<rparr>],
             error = [], error_line = 0,
             unresolved = [\<lparr>u_address = 0, u_label = ''L'', u_line = 1\<rparr>]\<rparr>)"
    by code_simp
  then show ?thesis by (simp add: bra_example pred_nibble_def)
qed

section \<open>Properties of the virtual machine\<close>

lemma result_all_if_cond:
  "(c \<Longrightarrow> result_all P a) \<Longrightarrow> (\<not> c \<Longrightarrow> result_all P b) \<Longrightarrow> result_all P (if c then a else b)"
  by simp

lemma result_all_mono:
  "result_all P res \<Longrightarrow> (\<And>v. P v \<Longrightarrow> Q v) \<Longrightarrow> result_all Q res"
  by (cases res) auto

text \<open>Unfolding a step whose program counter and source register fields are in range.\<close>

lemma vm_step_unfold:
  assumes "unat (pc vm) < length (vm_code vm)"
    and "unat (inst_rs1 (vm_code vm ! unat (pc vm))) < VM_MAX_REGS"
    and "unat (inst_rs2 (vm_code vm ! unat (pc vm))) < VM_MAX_REGS"
  shows "vm_step F vm =
     vm_switch F (inst_opcode (vm_code vm ! unat (pc vm)))
       (unat (inst_rd (vm_code vm ! unat (pc vm))))
       (unat (inst_rs2 (vm_code vm ! unat (pc vm))))
       (unat (inst_rs3 (vm_code vm ! unat (pc vm))))
       (inst_imm (vm_code vm ! unat (pc vm)))
       (regs (zero_r0 vm) (unat (inst_rs1 (vm_code vm ! unat (pc vm)))))
       (regs (zero_r0 vm) (unat (inst_rs2 (vm_code vm ! unat (pc vm)))))
       ((zero_r0 vm)\<lparr>pc := pc (zero_r0 vm) + 1, cycle_count := cycle_count (zero_r0 vm) + 1\<rparr>)"
  using assms by (simp add: vm_step_def Let_def)

text \<open>Evaluating the machine on concrete states.\<close>

lemmas vm_eval_defs =
  vm_step_def milo_vm_init_def Let_def inst_opcode_def inst_rd_def inst_rs1_def
  inst_rs2_def inst_rs3_def inst_imm_def vm_switch_def opcode_defs VM_MAX_REGS_def
  write_reg_def step_done_def zero_r0_def VM_MEM_SIZE_def VM_STACK_SIZE_def
  push_div_def do_call_def do_ret_def bool_word_def vm_one_inst_def

lemma exec_exit_only:
  "milo_vm_exec_fragment F vm_exit_only inp =
     Some (True, Some \<lparr> out_r = frag_nx inp, out_g = frag_ny inp, out_b = frag_nz inp,
                        out_a = frag_r inp, out_depth = frag_z inp, out_discard = False \<rparr>,
           vm_after_exit inp)"
  by (simp add: milo_vm_exec_fragment_def frag_reset_def vm_run.simps vm_eval_defs
      vm_exit_only_def vm_after_exit_def)

lemma exec_after_exit:
  "milo_vm_exec_fragment F (vm_after_exit inp) inp2 =
     Some (True, Some \<lparr> out_r = frag_nx inp2, out_g = frag_ny inp2, out_b = frag_nz inp2,
                        out_a = frag_r inp2, out_depth = frag_z inp2, out_discard = False \<rparr>,
           vm_after_exit inp2)"
  by (simp add: milo_vm_exec_fragment_def frag_reset_def vm_run.simps vm_eval_defs
      vm_exit_only_def vm_after_exit_def)

subsection \<open>Register 0\<close>

lemma step_done_r0: "result_all (\<lambda>v. regs v 0 = 0) (step_done vm)"
  by (simp add: step_done_def zero_r0_def)

lemma write_reg_r0: "result_all (\<lambda>v. regs v 0 = 0) (write_reg vm r v)"
  by (simp add: write_reg_def step_done_def zero_r0_def)

lemma helpers_r0:
  "result_all (\<lambda>v. regs v 0 = 0) (push_div vm a)"
  "result_all (\<lambda>v. regs v 0 = 0) (do_call vm a)"
  "regs vm 0 = 0 \<Longrightarrow> result_all (\<lambda>v. regs v 0 = 0) (do_ret vm)"
  "result_all (\<lambda>v. regs v 0 = 0) (do_tex F vm r s2 u1 u2)"
  by (simp_all add: push_div_def do_call_def do_ret_def do_tex_def Let_def step_done_def zero_r0_def
      write_reg4_def split: option.splits)

lemma vm_switch_r0:
  assumes "regs vm 0 = 0"
  shows "result_all (\<lambda>v. regs v 0 = 0) (vm_switch F op r s2 s3 im u1 u2 vm)"
  unfolding vm_switch_def Let_def
  by (intro result_all_if result_all_option write_reg_r0 step_done_r0 helpers_r0 assms)
     (simp_all add: assms)

lemma vm_step_r0:
  assumes "unat (pc vm) < length (vm_code vm) \<or> regs vm 0 = 0"
  shows "result_all (\<lambda>v. regs v 0 = 0) (vm_step F vm)"
proof (cases "unat (pc vm) < length (vm_code vm)")
  case True
  have "regs ((zero_r0 vm)\<lparr>pc := pc (zero_r0 vm) + 1,
               cycle_count := cycle_count (zero_r0 vm) + 1\<rparr>) 0 = 0"
    by (simp add: zero_r0_def)
  from vm_switch_r0 [OF this] True show ?thesis
    by (simp add: vm_step_def Let_def)
next
  case False
  with assms show ?thesis by (simp add: vm_step_def)
qed

lemma vm_steps_r0:
  "regs vm 0 = 0 \<Longrightarrow> result_all (\<lambda>v. regs v 0 = 0) (vm_steps F n vm)"
proof (induction n arbitrary: vm)
  case 0
  then show ?case by simp
next
  case (Suc n)
  from Suc.prems have st: "result_all (\<lambda>v. regs v 0 = 0) (vm_step F vm)"
    by (simp add: vm_step_r0)
  show ?case
  proof (cases "vm_step F vm")
    case (Step_True vm')
    with st have "regs vm' 0 = 0" by simp
    from Suc.IH [OF this] Step_True show ?thesis by simp
  next
    case (Step_False vm')
    with st show ?thesis by simp
  next
    case Step_UB
    then show ?thesis by simp
  qed
qed

lemma vm_run_r0:
  "regs vm 0 = 0 \<Longrightarrow> vm_run F vm = Some vm' \<Longrightarrow> regs vm' 0 = 0"
proof (induction F vm rule: vm_run.induct)
  case (1 F vm)
  show ?case
  proof (cases "running vm \<and> cycle_count vm < max_cycles vm")
    case False
    with "1.prems" show ?thesis by (simp add: vm_run.simps)
  next
    case True
    from "1.prems"(1) have st: "result_all (\<lambda>v. regs v 0 = 0) (vm_step F vm)"
      by (simp add: vm_step_r0)
    show ?thesis
    proof (cases "vm_step F vm")
      case (Step_True v)
      with st have "regs v 0 = 0" by simp
      moreover from True Step_True "1.prems"(2) have "vm_run F v = Some vm'"
        by (simp add: vm_run.simps)
      ultimately show ?thesis using "1.IH" True Step_True by blast
    next
      case (Step_False v)
      with True "1.prems"(2) have "vm' = v" by (simp add: vm_run.simps)
      with st Step_False show ?thesis by simp
    next
      case Step_UB
      with True "1.prems"(2) show ?thesis by (simp add: vm_run.simps)
    qed
  qed
qed

lemma vm_steps_two:
  "vm_steps F 2 vm =
     (case vm_step F vm of
        Step_True v \<Rightarrow> (case vm_step F v of
                         Step_True v' \<Rightarrow> Step_True v'
                       | Step_False v' \<Rightarrow> Step_False v'
                       | Step_UB \<Rightarrow> Step_UB)
      | Step_False v \<Rightarrow> Step_False v
      | Step_UB \<Rightarrow> Step_UB)"
proof -
  have "vm_steps F 2 vm = vm_steps F (Suc (Suc 0)) vm" by (simp add: numeral_2_eq_2)
  then show ?thesis by (simp split: step_result.splits)
qed

text \<open>
  Claim C7: a step that fetches an instruction returns a state in which register 0 is zero,
  whatever the instruction (also \<open>exit\<close>, an unknown opcode, or a destination field naming
  register 0); a step from a state in which register 0 is zero keeps it zero also when it
  stops with the program counter out of bounds. Register 0 is zero initially and after the
  reset of a fragment execution, hence after any sequence of steps and at the end of every
  fragment execution.
\<close>

theorem C7_register_zero:
  "(unat (pc vm) < length (vm_code vm) \<or> regs vm 0 = 0
      \<longrightarrow> result_all (\<lambda>v. regs v 0 = 0) (vm_step F vm))
   \<and> (regs vm 0 = 0 \<longrightarrow> result_all (\<lambda>v. regs v 0 = 0) (vm_steps F n vm))
   \<and> regs milo_vm_init 0 = 0
   \<and> regs (frag_reset vm inp) 0 = 0
   \<and> (milo_vm_exec_fragment F vm inp = Some (ok, outp, vm') \<longrightarrow> regs vm' 0 = 0)"
proof (intro conjI impI)
  assume "unat (pc vm) < length (vm_code vm) \<or> regs vm 0 = 0"
  then show "result_all (\<lambda>v. regs v 0 = 0) (vm_step F vm)" by (rule vm_step_r0)
next
  assume "regs vm 0 = 0"
  then show "result_all (\<lambda>v. regs v 0 = 0) (vm_steps F n vm)" by (rule vm_steps_r0)
next
  show "regs milo_vm_init 0 = 0" by (simp add: milo_vm_init_def)
next
  show r: "regs (frag_reset vm inp) 0 = 0" by (simp add: frag_reset_def)
  assume ex: "milo_vm_exec_fragment F vm inp = Some (ok, outp, vm')"
  then obtain vm1 where run: "vm_run F (frag_reset vm inp) = Some vm1"
    by (auto simp: milo_vm_exec_fragment_def split: option.splits)
  from vm_run_r0 [OF r run] have "regs vm1 0 = 0" .
  with ex run show "regs vm' 0 = 0"
    by (auto simp: milo_vm_exec_fragment_def split: if_splits)
qed

text \<open>
  Witness for C7: \<open>addi r0, r0, 5\<close> (the word \<open>0x0100000070000005\<close>) executed from a state
  whose registers all hold 9 leaves register 0 zero; so do two steps from the initial
  registers, and the fragment execution of \<open>exit\<close>.
\<close>

theorem C7_register_zero_witness:
  "\<forall>F inp.
     unat (pc (vm_one_inst 0x0100000070000005 (\<lambda>_. 9) (\<lambda>_. 0)))
        < length (vm_code (vm_one_inst 0x0100000070000005 (\<lambda>_. 9) (\<lambda>_. 0)))
     \<and> (\<exists>v. vm_step F (vm_one_inst 0x0100000070000005 (\<lambda>_. 9) (\<lambda>_. 0)) = Step_True v
            \<and> regs v 0 = 0 \<and> pc v = 1)
     \<and> regs (vm_one_inst 0x0100000070000005 (\<lambda>_. 0) (\<lambda>_. 0)) 0 = 0
     \<and> (\<exists>v. vm_steps F 2 (vm_one_inst 0x0100000070000005 (\<lambda>_. 0) (\<lambda>_. 0)) = Step_False v
            \<and> regs v 0 = 0)
     \<and> (\<exists>v. milo_vm_exec_fragment F vm_exit_only inp = Some (True, v) \<and> regs (snd v) 0 = 0)"
proof (intro allI)
  fix F :: fpu and inp :: milo_fragment_in_t
  let ?vm = "vm_one_inst 0x0100000070000005 (\<lambda>_. 9) (\<lambda>_. 0)"
  let ?vz = "vm_one_inst 0x0100000070000005 (\<lambda>_. 0) (\<lambda>_. 0)"
  have b: "unat (pc ?vm) < length (vm_code ?vm)" by (simp add: vm_eval_defs)
  have "\<exists>v. vm_step F ?vm = Step_True v \<and> pc v = 1" by (simp add: vm_eval_defs)
  then obtain v where v: "vm_step F ?vm = Step_True v" "pc v = 1" by blast
  with C7_register_zero [where vm = ?vm and F = F] b have "regs v 0 = 0" by simp
  with v have c1: "\<exists>v. vm_step F ?vm = Step_True v \<and> regs v 0 = 0 \<and> pc v = 1" by blast
  have z: "regs ?vz 0 = 0" by (simp add: vm_eval_defs)
  have "\<exists>v. vm_steps F 2 ?vz = Step_False v"
    by (simp add: vm_steps_two vm_eval_defs)
  then obtain w where w: "vm_steps F 2 ?vz = Step_False w" by blast
  with C7_register_zero [where vm = ?vz and F = F and n = 2] z have "regs w 0 = 0" by simp
  with w have c2: "\<exists>v. vm_steps F 2 ?vz = Step_False v \<and> regs v 0 = 0" by blast
  from C7_register_zero [where vm = vm_exit_only and F = F and inp = inp] exec_exit_only [of F inp]
  have c3: "\<exists>v. milo_vm_exec_fragment F vm_exit_only inp = Some (True, v) \<and> regs (snd v) 0 = 0"
    by simp
  from b c1 z c2 c3
  show "unat (pc ?vm) < length (vm_code ?vm)
     \<and> (\<exists>v. vm_step F ?vm = Step_True v \<and> regs v 0 = 0 \<and> pc v = 1)
     \<and> regs ?vz 0 = 0
     \<and> (\<exists>v. vm_steps F 2 ?vz = Step_False v \<and> regs v 0 = 0)
     \<and> (\<exists>v. milo_vm_exec_fragment F vm_exit_only inp = Some (True, v) \<and> regs (snd v) 0 = 0)"
    by (intro conjI)
qed

subsection \<open>Zero divisors and addresses outside the memory\<close>

lemma switch_idiv0: "vm_switch F OP_IDIV r s2 s3 im u1 0 vm = write_reg vm r 0"
  by (simp add: vm_switch_def opcode_defs)

lemma switch_irem0: "vm_switch F OP_IREM r s2 s3 im u1 0 vm = write_reg vm r 0"
  by (simp add: vm_switch_def opcode_defs)

lemma switch_fdiv0: "f_is_zero u2 \<Longrightarrow> vm_switch F OP_FDIV r s2 s3 im u1 u2 vm = write_reg vm r 0"
  by (simp add: vm_switch_def opcode_defs F_ZERO_def)

lemma switch_ldr_far:
  "VM_MEM_SIZE \<le> unat (u1 + im) \<Longrightarrow> vm_switch F OP_LDR r s2 s3 im u1 u2 vm = write_reg vm r 0"
  by (simp add: vm_switch_def opcode_defs Let_def)

lemma switch_str_far:
  "VM_MEM_SIZE \<le> unat (u1 + im) \<Longrightarrow> vm_switch F OP_STR r s2 s3 im u1 u2 vm = step_done vm"
  by (simp add: vm_switch_def opcode_defs Let_def)

lemma write_reg_zero_result:
  "r < VM_MAX_REGS \<Longrightarrow>
   \<exists>v. write_reg vm r 0 = Step_True v \<and> regs v r = 0 \<and> vm_error v = vm_error vm
        \<and> running v = running vm \<and> pc v = pc vm \<and> mem v = mem vm"
  by (simp add: write_reg_def step_done_def zero_r0_def)

text \<open>
  Claim C8: let the instruction at the program counter have its register fields below 64.
  If it is \<open>idiv\<close> or \<open>irem\<close> and the divisor register reads 0, or \<open>fdiv\<close> and the divisor
  register reads a floating-point zero, or \<open>ldr\<close> and the byte address \<open>rs1 + imm\<close> is at
  or beyond \<open>VM_MEM_SIZE\<close> (8192), then the step returns \<open>true\<close>, the destination register
  reads 0 afterwards, and the error message and the running flag are as before; if it is
  \<open>str\<close> to such an address, the step returns \<open>true\<close> and the memory is as before.
\<close>

theorem C8_zero_divisor_and_out_of_range:
  assumes "unat (pc vm) < length (vm_code vm)"
    and "inst = vm_code vm ! unat (pc vm)"
    and "unat (inst_rd inst) < VM_MAX_REGS"
    and "unat (inst_rs1 inst) < VM_MAX_REGS"
    and "unat (inst_rs2 inst) < VM_MAX_REGS"
  shows
   "(inst_opcode inst = OP_IDIV \<or> inst_opcode inst = OP_IREM \<longrightarrow>
       regs (zero_r0 vm) (unat (inst_rs2 inst)) = 0 \<longrightarrow>
       (\<exists>v. vm_step F vm = Step_True v \<and> regs v (unat (inst_rd inst)) = 0
            \<and> vm_error v = vm_error vm \<and> running v = running vm \<and> pc v = pc vm + 1))
    \<and> (inst_opcode inst = OP_FDIV \<longrightarrow>
       f_is_zero (regs (zero_r0 vm) (unat (inst_rs2 inst))) \<longrightarrow>
       (\<exists>v. vm_step F vm = Step_True v \<and> regs v (unat (inst_rd inst)) = 0
            \<and> vm_error v = vm_error vm \<and> running v = running vm \<and> pc v = pc vm + 1))
    \<and> (inst_opcode inst = OP_LDR \<longrightarrow>
       VM_MEM_SIZE \<le> unat (regs (zero_r0 vm) (unat (inst_rs1 inst)) + inst_imm inst) \<longrightarrow>
       (\<exists>v. vm_step F vm = Step_True v \<and> regs v (unat (inst_rd inst)) = 0
            \<and> vm_error v = vm_error vm \<and> running v = running vm \<and> pc v = pc vm + 1))
    \<and> (inst_opcode inst = OP_STR \<longrightarrow>
       VM_MEM_SIZE \<le> unat (regs (zero_r0 vm) (unat (inst_rs1 inst)) + inst_imm inst) \<longrightarrow>
       (\<exists>v. vm_step F vm = Step_True v \<and> mem v = mem vm
            \<and> vm_error v = vm_error vm \<and> running v = running vm \<and> pc v = pc vm + 1))"
proof -
  let ?vm1 = "(zero_r0 vm)\<lparr>pc := pc (zero_r0 vm) + 1, cycle_count := cycle_count (zero_r0 vm) + 1\<rparr>"
  note st = vm_step_unfold [OF assms(1) assms(4,5) [unfolded assms(2)], folded assms(2), of F]
  have f: "vm_error ?vm1 = vm_error vm" "running ?vm1 = running vm" "pc ?vm1 = pc vm + 1"
    "mem ?vm1 = mem vm"
    by (simp_all add: zero_r0_def)
  note wz = write_reg_zero_result [OF assms(3), of ?vm1, unfolded f]
  show ?thesis
  proof (intro conjI impI)
    assume "inst_opcode inst = OP_IDIV \<or> inst_opcode inst = OP_IREM"
      and "regs (zero_r0 vm) (unat (inst_rs2 inst)) = 0"
    then have "vm_step F vm = write_reg ?vm1 (unat (inst_rd inst)) 0"
      using st by (auto simp: switch_idiv0 switch_irem0)
    with wz show "\<exists>v. vm_step F vm = Step_True v \<and> regs v (unat (inst_rd inst)) = 0
            \<and> vm_error v = vm_error vm \<and> running v = running vm \<and> pc v = pc vm + 1"
      by auto
  next
    assume "inst_opcode inst = OP_FDIV"
      and "f_is_zero (regs (zero_r0 vm) (unat (inst_rs2 inst)))"
    then have "vm_step F vm = write_reg ?vm1 (unat (inst_rd inst)) 0"
      using st by (simp add: switch_fdiv0)
    with wz show "\<exists>v. vm_step F vm = Step_True v \<and> regs v (unat (inst_rd inst)) = 0
            \<and> vm_error v = vm_error vm \<and> running v = running vm \<and> pc v = pc vm + 1"
      by auto
  next
    assume "inst_opcode inst = OP_LDR"
      and "VM_MEM_SIZE \<le> unat (regs (zero_r0 vm) (unat (inst_rs1 inst)) + inst_imm inst)"
    then have "vm_step F vm = write_reg ?vm1 (unat (inst_rd inst)) 0"
      using st by (simp add: switch_ldr_far)
    with wz show "\<exists>v. vm_step F vm = Step_True v \<and> regs v (unat (inst_rd inst)) = 0
            \<and> vm_error v = vm_error vm \<and> running v = running vm \<and> pc v = pc vm + 1"
      by auto
  next
    assume "inst_opcode inst = OP_STR"
      and "VM_MEM_SIZE \<le> unat (regs (zero_r0 vm) (unat (inst_rs1 inst)) + inst_imm inst)"
    then have "vm_step F vm = step_done ?vm1"
      using st by (simp add: switch_str_far)
    then show "\<exists>v. vm_step F vm = Step_True v \<and> mem v = mem vm
            \<and> vm_error v = vm_error vm \<and> running v = running vm \<and> pc v = pc vm + 1"
      by (simp add: step_done_def zero_r0_def)
  qed
qed

text \<open>
  Witness for C8: \<open>idiv r3, r1, r2\<close>, \<open>irem r3, r1, r2\<close> and \<open>fdiv r3, r1, r2\<close> with
  \<open>r1 = 10\<close>, \<open>r3 = 77\<close> and a zero in \<open>r2\<close> (\<open>-0.0\<close> for \<open>fdiv\<close>); \<open>ldr r3, r1\<close> and
  \<open>str r3, r1\<close> with \<open>r1 = 8192\<close>.
\<close>

theorem C8_zero_divisor_and_out_of_range_witness:
  "\<forall>F.
    (\<exists>v. vm_step F (vm_one_inst 0x3603010270000000 ((\<lambda>_. 0)(1 := 10, 3 := 77)) (\<lambda>_. 0)) = Step_True v
         \<and> regs v 3 = 0 \<and> vm_error v = [] \<and> pc v = 1)
    \<and> (\<exists>v. vm_step F (vm_one_inst 0x3703010270000000 ((\<lambda>_. 0)(1 := 10, 3 := 77)) (\<lambda>_. 0)) = Step_True v
         \<and> regs v 3 = 0 \<and> vm_error v = [] \<and> pc v = 1)
    \<and> (\<exists>v. vm_step F (vm_one_inst 0x3303010270000000
                         ((\<lambda>_. 0)(1 := 10, 2 := 0x80000000, 3 := 77)) (\<lambda>_. 0)) = Step_True v
         \<and> regs v 3 = 0 \<and> vm_error v = [] \<and> pc v = 1)
    \<and> (\<exists>v. vm_step F (vm_one_inst 0x1003010070000000 ((\<lambda>_. 0)(1 := 8192, 3 := 77)) (\<lambda>_. 5)) = Step_True v
         \<and> regs v 3 = 0 \<and> vm_error v = [] \<and> pc v = 1)
    \<and> (\<exists>v. vm_step F (vm_one_inst 0x1103010070000000 ((\<lambda>_. 0)(1 := 8192, 3 := 77)) (\<lambda>_. 5)) = Step_True v
         \<and> mem v = (\<lambda>_. 5) \<and> vm_error v = [] \<and> pc v = 1)"
proof (intro allI conjI)
  fix F :: fpu
  show "\<exists>v. vm_step F (vm_one_inst 0x3603010270000000 ((\<lambda>_. 0)(1 := 10, 3 := 77)) (\<lambda>_. 0)) = Step_True v
         \<and> regs v 3 = 0 \<and> vm_error v = [] \<and> pc v = 1"
    using C8_zero_divisor_and_out_of_range
      [where vm = "vm_one_inst 0x3603010270000000 ((\<lambda>_. 0)(1 := 10, 3 := 77)) (\<lambda>_. 0)"
         and inst = "0x3603010270000000" and F = F]
    by (auto simp add: vm_one_inst_def milo_vm_init_def inst_opcode_def inst_rd_def inst_rs1_def
        inst_rs2_def inst_imm_def opcode_defs VM_MAX_REGS_def VM_MEM_SIZE_def zero_r0_def
        f_is_zero_def)
  show "\<exists>v. vm_step F (vm_one_inst 0x3703010270000000 ((\<lambda>_. 0)(1 := 10, 3 := 77)) (\<lambda>_. 0)) = Step_True v
         \<and> regs v 3 = 0 \<and> vm_error v = [] \<and> pc v = 1"
    using C8_zero_divisor_and_out_of_range
      [where vm = "vm_one_inst 0x3703010270000000 ((\<lambda>_. 0)(1 := 10, 3 := 77)) (\<lambda>_. 0)"
         and inst = "0x3703010270000000" and F = F]
    by (auto simp add: vm_one_inst_def milo_vm_init_def inst_opcode_def inst_rd_def inst_rs1_def
        inst_rs2_def inst_imm_def opcode_defs VM_MAX_REGS_def VM_MEM_SIZE_def zero_r0_def
        f_is_zero_def)
  show "\<exists>v. vm_step F (vm_one_inst 0x3303010270000000
                         ((\<lambda>_. 0)(1 := 10, 2 := 0x80000000, 3 := 77)) (\<lambda>_. 0)) = Step_True v
         \<and> regs v 3 = 0 \<and> vm_error v = [] \<and> pc v = 1"
    using C8_zero_divisor_and_out_of_range
      [where vm = "vm_one_inst 0x3303010270000000 ((\<lambda>_. 0)(1 := 10, 2 := 0x80000000, 3 := 77)) (\<lambda>_. 0)"
         and inst = "0x3303010270000000" and F = F]
    by (auto simp add: vm_one_inst_def milo_vm_init_def inst_opcode_def inst_rd_def inst_rs1_def
        inst_rs2_def inst_imm_def opcode_defs VM_MAX_REGS_def VM_MEM_SIZE_def zero_r0_def
        f_is_zero_def)
  show "\<exists>v. vm_step F (vm_one_inst 0x1003010070000000 ((\<lambda>_. 0)(1 := 8192, 3 := 77)) (\<lambda>_. 5)) = Step_True v
         \<and> regs v 3 = 0 \<and> vm_error v = [] \<and> pc v = 1"
    using C8_zero_divisor_and_out_of_range
      [where vm = "vm_one_inst 0x1003010070000000 ((\<lambda>_. 0)(1 := 8192, 3 := 77)) (\<lambda>_. 5)"
         and inst = "0x1003010070000000" and F = F]
    by (auto simp add: vm_one_inst_def milo_vm_init_def inst_opcode_def inst_rd_def inst_rs1_def
        inst_rs2_def inst_imm_def opcode_defs VM_MAX_REGS_def VM_MEM_SIZE_def zero_r0_def
        f_is_zero_def)
  show "\<exists>v. vm_step F (vm_one_inst 0x1103010070000000 ((\<lambda>_. 0)(1 := 8192, 3 := 77)) (\<lambda>_. 5)) = Step_True v
         \<and> mem v = (\<lambda>_. 5) \<and> vm_error v = [] \<and> pc v = 1"
    using C8_zero_divisor_and_out_of_range
      [where vm = "vm_one_inst 0x1103010070000000 ((\<lambda>_. 0)(1 := 8192, 3 := 77)) (\<lambda>_. 5)"
         and inst = "0x1103010070000000" and F = F]
    by (auto simp add: vm_one_inst_def milo_vm_init_def inst_opcode_def inst_rd_def inst_rs1_def
        inst_rs2_def inst_imm_def opcode_defs VM_MAX_REGS_def VM_MEM_SIZE_def zero_r0_def
        f_is_zero_def)
qed

subsection \<open>Memory and uniforms across fragment executions\<close>

lemma step_done_mem: "result_all (\<lambda>v. mem v = m) (step_done vm) = (mem vm = m)"
  by (simp add: step_done_def zero_r0_def)

lemma write_reg_mem: "mem vm = m \<Longrightarrow> result_all (\<lambda>v. mem v = m) (write_reg vm r v)"
  by (simp add: write_reg_def step_done_def zero_r0_def)

lemma helpers_mem:
  "mem vm = m \<Longrightarrow> result_all (\<lambda>v. mem v = m) (push_div vm a)"
  "mem vm = m \<Longrightarrow> result_all (\<lambda>v. mem v = m) (do_call vm a)"
  "mem vm = m \<Longrightarrow> result_all (\<lambda>v. mem v = m) (do_ret vm)"
  "mem vm = m \<Longrightarrow> result_all (\<lambda>v. mem v = m) (do_tex F vm r s2 u1 u2)"
  by (simp_all add: push_div_def do_call_def do_ret_def do_tex_def Let_def step_done_def zero_r0_def
      write_reg4_def split: option.splits)

lemma vm_switch_mem:
  assumes "op = OP_STR \<Longrightarrow> VM_MEM_SIZE \<le> unat (u1 + im)"
  shows "result_all (\<lambda>v. mem v = mem vm) (vm_switch F op r s2 s3 im u1 u2 vm)"
  unfolding vm_switch_def Let_def
  apply (intro result_all_if_cond result_all_option write_reg_mem helpers_mem)
  apply (simp_all add: step_done_mem)
  using assms apply simp
  done

lemma vm_step_mem:
  assumes "\<not> str_in_range vm"
  shows "result_all (\<lambda>v. mem v = mem vm) (vm_step F vm)"
proof (cases "unat (pc vm) < length (vm_code vm)")
  case False
  then show ?thesis by (simp add: vm_step_def)
next
  case True
  let ?i = "vm_code vm ! unat (pc vm)"
  let ?vm1 = "(zero_r0 vm)\<lparr>pc := pc (zero_r0 vm) + 1, cycle_count := cycle_count (zero_r0 vm) + 1\<rparr>"
  have "result_all (\<lambda>v. mem v = mem ?vm1)
          (vm_switch F (inst_opcode ?i) (unat (inst_rd ?i)) (unat (inst_rs2 ?i)) (unat (inst_rs3 ?i))
             (inst_imm ?i) (regs (zero_r0 vm) (unat (inst_rs1 ?i)))
             (regs (zero_r0 vm) (unat (inst_rs2 ?i))) ?vm1)"
    using assms True by (intro vm_switch_mem) (simp add: str_in_range_def)
  moreover have "mem ?vm1 = mem vm" by (simp add: zero_r0_def)
  ultimately show ?thesis using True by (simp add: vm_step_def Let_def)
qed

text \<open>The persistent fields: no step writes them.\<close>

definition same_program :: "milo_vm_t \<Rightarrow> milo_vm_t \<Rightarrow> bool" where
  "same_program vm v =
     (vm_code v = vm_code vm \<and> uniforms v = uniforms vm \<and> uniform_count v = uniform_count vm
      \<and> textures v = textures vm \<and> max_cycles v = max_cycles vm)"

lemma vm_step_same_program: "result_all (same_program vm) (vm_step F vm)"
proof (cases "unat (pc vm) < length (vm_code vm)")
  case False
  then show ?thesis by (simp add: vm_step_def same_program_def)
next
  case True
  let ?i = "vm_code vm ! unat (pc vm)"
  let ?vm1 = "(zero_r0 vm)\<lparr>pc := pc (zero_r0 vm) + 1, cycle_count := cycle_count (zero_r0 vm) + 1\<rparr>"
  have "result_all (keeps_static ?vm1)
          (vm_switch F (inst_opcode ?i) (unat (inst_rd ?i)) (unat (inst_rs2 ?i)) (unat (inst_rs3 ?i))
             (inst_imm ?i) (regs (zero_r0 vm) (unat (inst_rs1 ?i)))
             (regs (zero_r0 vm) (unat (inst_rs2 ?i))) ?vm1)"
    by (rule vm_switch_static)
  then have "result_all (same_program vm)
          (vm_switch F (inst_opcode ?i) (unat (inst_rd ?i)) (unat (inst_rs2 ?i)) (unat (inst_rs3 ?i))
             (inst_imm ?i) (regs (zero_r0 vm) (unat (inst_rs1 ?i)))
             (regs (zero_r0 vm) (unat (inst_rs2 ?i))) ?vm1)"
    by (rule result_all_mono) (simp add: keeps_static_def same_program_def zero_r0_def)
  then show ?thesis using True by (simp add: vm_step_def Let_def)
qed

lemma vm_run_same_program:
  "vm_run F vm = Some vm' \<Longrightarrow> same_program vm vm'"
proof (induction F vm rule: vm_run.induct)
  case (1 F vm)
  show ?case
  proof (cases "running vm \<and> cycle_count vm < max_cycles vm")
    case False
    with "1.prems" show ?thesis by (simp add: vm_run.simps same_program_def)
  next
    case True
    have st: "result_all (same_program vm) (vm_step F vm)" by (rule vm_step_same_program)
    show ?thesis
    proof (cases "vm_step F vm")
      case (Step_True v)
      with st have a: "same_program vm v" by simp
      from True Step_True "1.prems" have "vm_run F v = Some vm'" by (simp add: vm_run.simps)
      with "1.IH" True Step_True have "same_program v vm'" by blast
      with a show ?thesis by (simp add: same_program_def)
    next
      case (Step_False v)
      with True "1.prems" have "vm' = v" by (simp add: vm_run.simps)
      with st Step_False show ?thesis by simp
    next
      case Step_UB
      with True "1.prems" show ?thesis by (simp add: vm_run.simps)
    qed
  qed
qed

lemma vm_run_mem:
  "vm_run F vm = Some vm' \<Longrightarrow> list_all (\<lambda>s. \<not> str_in_range s) (vm_trace F vm) \<Longrightarrow> mem vm' = mem vm"
proof (induction F vm rule: vm_run.induct)
  case (1 F vm)
  show ?case
  proof (cases "running vm \<and> cycle_count vm < max_cycles vm")
    case False
    with "1.prems" show ?thesis by (simp add: vm_run.simps)
  next
    case True
    with "1.prems"(2) have ns: "\<not> str_in_range vm"
      by (subst (asm) vm_trace.simps) simp
    then have st: "result_all (\<lambda>v. mem v = mem vm) (vm_step F vm)" by (rule vm_step_mem)
    show ?thesis
    proof (cases "vm_step F vm")
      case (Step_True v)
      with st have a: "mem v = mem vm" by simp
      from True Step_True "1.prems"(1) have r: "vm_run F v = Some vm'" by (simp add: vm_run.simps)
      from True Step_True "1.prems"(2) have "list_all (\<lambda>s. \<not> str_in_range s) (vm_trace F v)"
        by (subst (asm) vm_trace.simps) simp
      with "1.IH" True Step_True r have "mem vm' = mem v" by blast
      with a show ?thesis by simp
    next
      case (Step_False v)
      with True "1.prems"(1) have "vm' = v" by (simp add: vm_run.simps)
      with st Step_False show ?thesis by simp
    next
      case Step_UB
      with True "1.prems"(1) show ?thesis by (simp add: vm_run.simps)
    qed
  qed
qed

lemma exec_fragment_frame:
  assumes "milo_vm_exec_fragment F vm inp = Some (ok, outp, vm')"
  shows "same_program vm vm'"
    and "list_all (\<lambda>s. \<not> str_in_range s) (vm_trace F (frag_reset vm inp)) \<Longrightarrow> mem vm' = mem vm"
proof -
  from assms obtain vm1 where run: "vm_run F (frag_reset vm inp) = Some vm1"
    and v': "vm' = vm1 \<or> (\<exists>e. vm' = vm1\<lparr>vm_error := e\<rparr>)"
    by (auto simp: milo_vm_exec_fragment_def split: option.splits if_splits)
  from vm_run_same_program [OF run] v' show "same_program vm vm'"
    by (auto simp: same_program_def frag_reset_def)
  assume "list_all (\<lambda>s. \<not> str_in_range s) (vm_trace F (frag_reset vm inp))"
  from vm_run_mem [OF run this] v' show "mem vm' = mem vm"
    by (auto simp: frag_reset_def)
qed

text \<open>
  Claim C10: \<open>milo_vm_exec_fragment\<close> starts from \<open>frag_reset\<close>, which clears the registers
  (then loads the inputs into registers 2..10), the program counter, both stack pointers,
  the cycle count, the discard flag and the error string, and keeps the memory and the
  uniforms; so the result does not depend on the earlier values of the fields it resets.
  An execution leaves the uniforms and the program as they were, and the memory too when
  no step it takes is an \<open>str\<close> to an address inside the memory; the same holds across two
  successive executions.
\<close>

theorem C10_exec_fragment_frame:
  "regs (frag_reset vm inp) =
       (\<lambda>_. 0)(2 := frag_u inp, 3 := frag_v inp, 4 := frag_nx inp, 5 := frag_ny inp,
                6 := frag_nz inp, 7 := frag_r inp, 8 := frag_g inp, 9 := frag_b inp,
                10 := frag_a inp)
   \<and> pc (frag_reset vm inp) = 0 \<and> div_sp (frag_reset vm inp) = 0 \<and> ret_sp (frag_reset vm inp) = 0
   \<and> cycle_count (frag_reset vm inp) = 0 \<and> discarded (frag_reset vm inp) = False
   \<and> vm_error (frag_reset vm inp) = [] \<and> running (frag_reset vm inp)
   \<and> mem (frag_reset vm inp) = mem vm \<and> uniforms (frag_reset vm inp) = uniforms vm
   \<and> milo_vm_exec_fragment F vm inp = milo_vm_exec_fragment F (frag_reset vm inp) inp
   \<and> milo_vm_exec_fragment F
        (vm\<lparr>regs := rg, pc := p, div_sp := dsp, ret_sp := rsp, running := rn, discarded := dc,
            cycle_count := cc, vm_error := er\<rparr>) inp = milo_vm_exec_fragment F vm inp
   \<and> (milo_vm_exec_fragment F vm inp = Some (ok, outp, vm') \<longrightarrow>
         uniforms vm' = uniforms vm \<and> vm_code vm' = vm_code vm
         \<and> (list_all (\<lambda>s. \<not> str_in_range s) (vm_trace F (frag_reset vm inp)) \<longrightarrow> mem vm' = mem vm))
   \<and> (milo_vm_exec_fragment F vm inp = Some (ok, outp, vm') \<longrightarrow>
       milo_vm_exec_fragment F vm' inq = Some (okq, outq, vmq) \<longrightarrow>
       list_all (\<lambda>s. \<not> str_in_range s) (vm_trace F (frag_reset vm inp)) \<longrightarrow>
       list_all (\<lambda>s. \<not> str_in_range s) (vm_trace F (frag_reset vm' inq)) \<longrightarrow>
         mem vmq = mem vm \<and> uniforms vmq = uniforms vm)"
proof -
  have a: "milo_vm_exec_fragment F vm inp = milo_vm_exec_fragment F (frag_reset vm inp) inp"
    by (simp add: milo_vm_exec_fragment_def frag_reset_def)
  have b: "milo_vm_exec_fragment F
        (vm\<lparr>regs := rg, pc := p, div_sp := dsp, ret_sp := rsp, running := rn, discarded := dc,
            cycle_count := cc, vm_error := er\<rparr>) inp = milo_vm_exec_fragment F vm inp"
    by (simp add: milo_vm_exec_fragment_def frag_reset_def)
  have c: "milo_vm_exec_fragment F vm inp = Some (ok, outp, vm') \<longrightarrow>
         uniforms vm' = uniforms vm \<and> vm_code vm' = vm_code vm
         \<and> (list_all (\<lambda>s. \<not> str_in_range s) (vm_trace F (frag_reset vm inp)) \<longrightarrow> mem vm' = mem vm)"
    using exec_fragment_frame [of F vm inp ok outp vm'] by (auto simp: same_program_def)
  have d: "milo_vm_exec_fragment F vm inp = Some (ok, outp, vm') \<longrightarrow>
       milo_vm_exec_fragment F vm' inq = Some (okq, outq, vmq) \<longrightarrow>
       list_all (\<lambda>s. \<not> str_in_range s) (vm_trace F (frag_reset vm inp)) \<longrightarrow>
       list_all (\<lambda>s. \<not> str_in_range s) (vm_trace F (frag_reset vm' inq)) \<longrightarrow>
         mem vmq = mem vm \<and> uniforms vmq = uniforms vm"
    using exec_fragment_frame [of F vm inp ok outp vm']
      exec_fragment_frame [of F vm' inq okq outq vmq]
    by (auto simp: same_program_def)
  show ?thesis
    apply (intro conjI)
    apply (simp_all add: frag_reset_def)[10]
    apply (rule a)
    apply (rule b)
    apply (rule c)
    apply (rule d)
    done
qed

text \<open>
  Witness for C10: two successive executions of the program \<open>exit\<close> in a machine whose
  memory holds the constant \<open>0.5\<close> at byte address \<open>0x1000\<close>.
\<close>

theorem C10_exec_fragment_frame_witness:
  "\<forall>F inp inq. \<exists>ok outp v okq outq v2.
     milo_vm_exec_fragment F vm_exit_only inp = Some (ok, outp, v)
     \<and> list_all (\<lambda>s. \<not> str_in_range s) (vm_trace F (frag_reset vm_exit_only inp))
     \<and> mem v = mem vm_exit_only \<and> mem v 1024 = 0x3F000000 \<and> uniforms v = uniforms vm_exit_only
     \<and> milo_vm_exec_fragment F v inq = Some (okq, outq, v2)
     \<and> list_all (\<lambda>s. \<not> str_in_range s) (vm_trace F (frag_reset v inq))
     \<and> mem v2 = mem vm_exit_only \<and> mem v2 1024 = 0x3F000000 \<and> uniforms v2 = uniforms vm_exit_only"
proof (intro allI)
  fix F :: fpu and inp inq :: milo_fragment_in_t
  note e1 = exec_exit_only [of F inp]
  note e2 = exec_after_exit [of F inp inq]
  have t1: "list_all (\<lambda>s. \<not> str_in_range s) (vm_trace F (frag_reset vm_exit_only inp))"
    by (simp add: frag_reset_def vm_trace.simps vm_eval_defs vm_exit_only_def str_in_range_def)
  have t2: "list_all (\<lambda>s. \<not> str_in_range s) (vm_trace F (frag_reset (vm_after_exit inp) inq))"
    by (simp add: frag_reset_def vm_trace.simps vm_eval_defs vm_exit_only_def str_in_range_def
        vm_after_exit_def)
  have m: "mem vm_exit_only 1024 = 0x3F000000" by (simp add: vm_exit_only_def vm_one_inst_def)
  from C10_exec_fragment_frame
    [where F = F and vm = vm_exit_only and inp = inp and vm' = "vm_after_exit inp"
       and inq = inq and vmq = "vm_after_exit inq"] e1 e2 t1 t2
  have "mem (vm_after_exit inp) = mem vm_exit_only \<and> uniforms (vm_after_exit inp) = uniforms vm_exit_only
        \<and> mem (vm_after_exit inq) = mem vm_exit_only
        \<and> uniforms (vm_after_exit inq) = uniforms vm_exit_only"
    by simp
  with e1 e2 t1 t2 m show "\<exists>ok outp v okq outq v2.
     milo_vm_exec_fragment F vm_exit_only inp = Some (ok, outp, v)
     \<and> list_all (\<lambda>s. \<not> str_in_range s) (vm_trace F (frag_reset vm_exit_only inp))
     \<and> mem v = mem vm_exit_only \<and> mem v 1024 = 0x3F000000 \<and> uniforms v = uniforms vm_exit_only
     \<and> milo_vm_exec_fragment F v inq = Some (okq, outq, v2)
     \<and> list_all (\<lambda>s. \<not> str_in_range s) (vm_trace F (frag_reset v inq))
     \<and> mem v2 = mem vm_exit_only \<and> mem v2 1024 = 0x3F000000 \<and> uniforms v2 = uniforms vm_exit_only"
    by auto
qed

end
